theory Spec2Isabelle
  imports Complex_Main "HOL-Library.Word"
begin

unbundle bit_operations_syntax

section \<open>Output buffer and control flow of the visitor\<close>

text \<open>
  \<open>PythonVisitor\<close> owns a string stream \<open>mStr\<close> and an indentation counter \<open>mTabs\<close>.
  Every \<open>visit\<close> overload appends to the stream. \<open>assert(0)\<close> ends the process when the
  program was compiled without \<open>NDEBUG\<close>; a cast or dereference the language leaves
  undefined is a fault of its own.
\<close>

datatype fault = Assertion_failed | Undefined_behaviour

record visitor =
  mStr :: string
  mTabs :: int

type_synonym step = "visitor \<Rightarrow> fault + visitor"

definition emit :: "string \<Rightarrow> step" where
  "emit txt s = Inr (s\<lparr>mStr := mStr s @ txt\<rparr>)"

definition skip :: step where
  "skip s = Inr s"

definition abort :: "fault \<Rightarrow> step" where
  "abort e s = Inl e"

definition and_then :: "step \<Rightarrow> step \<Rightarrow> step" where
  "and_then f g s = (case f s of Inl e \<Rightarrow> Inl e | Inr s' \<Rightarrow> g s')"

fun steps :: "step list \<Rightarrow> step" where
  "steps [] = skip"
| "steps (f # fs) = and_then f (steps fs)"

text \<open>\<open>doTabs\<close>: the loop \<open>for (i = 0; i < mTabs; ++i) mStr << "    "\<close>.\<close>

definition doTabs :: step where
  "doTabs s = emit (concat (replicate (nat (mTabs s)) ''    '')) s"

text \<open>
  \<open>ScopedTabSetter\<close>: the constructor stores the old depth and installs the new one, the
  destructor at the end of the enclosing block puts the old depth back.
\<close>

definition ScopedTabSetter :: "int \<Rightarrow> step \<Rightarrow> step" where
  "ScopedTabSetter tabs body s =
     (let mOldTabs = mTabs s in
      case body (s\<lparr>mTabs := tabs\<rparr>) of
        Inl e \<Rightarrow> Inl e
      | Inr s' \<Rightarrow> Inr (s'\<lparr>mTabs := mOldTabs\<rparr>))"

text \<open>Every use in the source is \<open>ScopedTabSetter(this, mTabs + 1)\<close>.\<close>

definition indented :: "step \<Rightarrow> step" where
  "indented body s = ScopedTabSetter (mTabs s + 1) body s"

text \<open>
  \<open>writeChildrenSep\<close>: visit every child, and write the separator after each child that
  has a successor.
\<close>

fun writeChildrenSep :: "step list \<Rightarrow> string \<Rightarrow> step" where
  "writeChildrenSep [] separator = skip"
| "writeChildrenSep [child] separator = child"
| "writeChildrenSep (child # next # rest) separator =
     steps [child, emit separator, writeChildrenSep (next # rest) separator]"

section \<open>Writing numbers\<close>

definition digit_chars :: string where
  "digit_chars = ''0123456789abcdef''"

fun dec_nat :: "nat \<Rightarrow> string" where
  "dec_nat n = (if n < 10 then [digit_chars ! n] else dec_nat (n div 10) @ [digit_chars ! (n mod 10)])"

declare dec_nat.simps [simp del]

text \<open>The stream's \<open>operator<<\<close> on a signed integer: decimal, with a minus sign.\<close>

definition dec_int :: "int \<Rightarrow> string" where
  "dec_int i = (if i < 0 then CHR ''-'' # dec_nat (nat (- i)) else dec_nat (nat i))"

text \<open>\<open>%02x\<close> on a byte: two lower-case hexadecimal digits.\<close>

definition hex_byte :: "8 word \<Rightarrow> string" where
  "hex_byte b = [digit_chars ! (unat b div 16), digit_chars ! (unat b mod 16)]"

section \<open>32-bit floats\<close>

text \<open>
  A \<open>float\<close> is its IEEE-754 binary32 bit pattern: sign bit 31, biased exponent in
  bits 30..23, fraction in bits 22..0.
\<close>

type_synonym float32 = "32 word"

definition signbit :: "float32 \<Rightarrow> bool" where
  "signbit f = bit f 31"

definition biased_exponent :: "float32 \<Rightarrow> nat" where
  "biased_exponent f = unat (take_bit 8 (drop_bit 23 f))"

definition fraction :: "float32 \<Rightarrow> nat" where
  "fraction f = unat (take_bit 23 f)"

definition is_nan :: "float32 \<Rightarrow> bool" where
  "is_nan f \<longleftrightarrow> biased_exponent f = 255 \<and> fraction f \<noteq> 0"

definition is_inf :: "float32 \<Rightarrow> bool" where
  "is_inf f \<longleftrightarrow> biased_exponent f = 255 \<and> fraction f = 0"

definition magnitude :: "float32 \<Rightarrow> rat" where
  "magnitude f =
     (let e = biased_exponent f; m = fraction f in
      if e = 0 then of_nat m / 2 ^ 149
      else if e < 150 then of_nat (2 ^ 23 + m) / 2 ^ (150 - e)
      else of_nat (2 ^ 23 + m) * 2 ^ (e - 150))"

text \<open>The number a finite float denotes; the widening to \<open>double\<close> keeps it.\<close>

definition float_value :: "float32 \<Rightarrow> rat" where
  "float_value f = (if signbit f then - magnitude f else magnitude f)"

text \<open>\<open>std::nearbyint\<close> in the default rounding mode: to nearest, ties to even.\<close>

definition nearbyint :: "rat \<Rightarrow> int" where
  "nearbyint x =
     (let fl = \<lfloor>x\<rfloor>; d = x - of_int fl in
      if d < 1 / 2 then fl
      else if 1 / 2 < d then fl + 1
      else if even fl then fl else fl + 1)"

text \<open>
  \<open>std::nearbyint((double)f_val) == (double)f_val\<close>: a NaN compares unequal to
  everything, an infinity is its own rounding.
\<close>

definition int_like :: "float32 \<Rightarrow> bool" where
  "int_like f \<longleftrightarrow>
     (if is_nan f then False
      else if is_inf f then True
      else of_int (nearbyint (float_value f)) = float_value f)"

text \<open>\<open>f_val == 0\<close>: true of both zeros, false of a NaN.\<close>

definition equals_zero :: "float32 \<Rightarrow> bool" where
  "equals_zero f \<longleftrightarrow> \<not> is_nan f \<and> \<not> is_inf f \<and> float_value f = 0"

text \<open>Truncation toward zero, the value of a float-to-integer conversion that fits.\<close>

definition trunc_zero :: "rat \<Rightarrow> int" where
  "trunc_zero x = (if x < 0 then - \<lfloor>- x\<rfloor> else \<lfloor>x\<rfloor>)"

definition fits_int64 :: "float32 \<Rightarrow> bool" where
  "fits_int64 f \<longleftrightarrow>
     \<not> is_nan f \<and> \<not> is_inf f \<and>
     - (2 ^ 63) \<le> trunc_zero (float_value f) \<and> trunc_zero (float_value f) < 2 ^ 63"

section \<open>What the build and the libraries supply\<close>

text \<open>
  The generator is compiled against the front end's library and the C++ runtime. What
  it takes from them, and what the language leaves to the platform, is a parameter:
  \<^item> \<open>escape_string\<close>: the front end's string escaping;
  \<^item> \<open>to_string\<close>: \<open>std::to_string(float)\<close>, the readable hint of \<open>bin2float\<close>;
  \<^item> \<open>big_endian\<close>: the host's byte order, which \<open>reinterpret_cast<uint8_t *>\<close> exposes;
  \<^item> \<open>NDEBUG\<close>: whether \<open>assert\<close> is compiled out;
  \<^item> \<open>int64_out_of_range\<close>: what \<open>(int64_t)f_val\<close> yields on this host when the
    truncated value has no \<open>int64_t\<close> (the language leaves the conversion undefined;
    x86-64 yields \<open>0x8000000000000000\<close>).
\<close>

record env =
  escape_string :: "string \<Rightarrow> string"
  to_string :: "float32 \<Rightarrow> string"
  big_endian :: bool
  NDEBUG :: bool
  int64_out_of_range :: "float32 \<Rightarrow> 64 word"

definition assert0 :: "env \<Rightarrow> step" where
  "assert0 env = (if NDEBUG env then skip else abort Assertion_failed)"

definition float_to_int64 :: "env \<Rightarrow> float32 \<Rightarrow> 64 word" where
  "float_to_int64 env f =
     (if fits_int64 f then word_of_int (trunc_zero (float_value f)) else int64_out_of_range env f)"

text \<open>The four bytes \<open>b_val[0]\<close> .. \<open>b_val[3]\<close> of the float in memory.\<close>

definition float_bytes :: "env \<Rightarrow> float32 \<Rightarrow> 8 word list" where
  "float_bytes env f =
     (let little = [ucast f, ucast (drop_bit 8 f), ucast (drop_bit 16 f), ucast (drop_bit 24 f)]
      in if big_endian env then rev little else little)"

definition squote :: char where
  "squote = CHR 0x27"

definition dquote :: char where
  "dquote = CHR 0x22"

definition writeFloat :: "env \<Rightarrow> float32 \<Rightarrow> step" where
  "writeFloat env f_val =
     (if int_like f_val then
        (if equals_zero f_val \<and> signbit f_val then emit ''-0.0''
         else steps [emit (dec_int (sint (float_to_int64 env f_val))), emit ''.0''])
      else
        (let s_val = concat (map hex_byte (float_bytes env f_val)) in
         steps [emit ''bin2float('', emit [squote], emit (to_string env f_val),
                emit ([squote] @ '', '' @ [squote]), emit s_val, emit ([squote] @ '')'')]))"

section \<open>The syntax tree the front end hands over\<close>

text \<open>
  The tree is built, resolved and typed by the front end's library; the generator only
  reads it. Each node is modelled with the fields the generator reads.
\<close>

datatype lsl_type =
  LST_NULL | LST_INTEGER | LST_FLOATINGPOINT | LST_STRING | LST_KEY
| LST_VECTOR | LST_QUATERNION | LST_LIST | LST_ERROR

text \<open>\<open>PY_TYPE_NAMES[LST_MAX]\<close>, indexed by the type tag.\<close>

fun PY_TYPE_NAMES :: "lsl_type \<Rightarrow> string" where
  "PY_TYPE_NAMES LST_NULL = ''None''"
| "PY_TYPE_NAMES LST_INTEGER = ''int''"
| "PY_TYPE_NAMES LST_FLOATINGPOINT = ''float''"
| "PY_TYPE_NAMES LST_STRING = ''str''"
| "PY_TYPE_NAMES LST_KEY = ''Key''"
| "PY_TYPE_NAMES LST_VECTOR = ''Vector''"
| "PY_TYPE_NAMES LST_QUATERNION = ''Quaternion''"
| "PY_TYPE_NAMES LST_LIST = ''list''"
| "PY_TYPE_NAMES LST_ERROR = ''<ERROR>''"

text \<open>
  The scope classes of a symbol. The generator tests for \<open>SYM_GLOBAL\<close> and
  \<open>SYM_BUILTIN\<close> only; \<open>SYM_LOCAL\<close> stands for every other class.
\<close>

datatype lsl_symbol_sub_type = SYM_BUILTIN | SYM_GLOBAL | SYM_LOCAL

record lsl_symbol =
  sym_name :: string
  sym_sub_type :: lsl_symbol_sub_type
  sym_itype :: lsl_type

record lsl_identifier =
  id_name :: string
  id_itype :: lsl_type

text \<open>
  The operator tag of a binary or unary expression: the operators the generator writes
  as character literals (\<open>'='\<close>, \<open>'+'\<close>, ...), the enumerators it names, and
  \<open>OP_OTHER\<close> for the rest of the front end's enumeration (the compound assignments
  other than \<open>*=\<close>, for one). The numeric values of the enumerators are in the front
  end's headers; they are kept symbolic here, each operator of a tree being written with
  the spelling the generator uses for it.
\<close>

datatype lsl_operator =
  OpChar char
| OP_EQ | OP_NEQ | OP_GREATER | OP_LESS | OP_GEQ | OP_LEQ
| OP_BOOLEAN_AND | OP_BOOLEAN_OR | OP_BIT_AND | OP_BIT_OR | OP_BIT_XOR
| OP_SHIFT_LEFT | OP_SHIFT_RIGHT
| OP_MUL_ASSIGN
| OP_PRE_INCR | OP_PRE_DECR | OP_POST_INCR | OP_POST_DECR
| OP_OTHER nat

text \<open>
  Expressions. A node whose type depends on the program carries the type the front end
  determined for it as its first field; the last field of a binary or unary expression
  is \<open>getResultNeeded()\<close>.
\<close>

datatype lsl_expr =
  LSLIntegerConstant "32 word"
| LSLFloatConstant float32
| LSLStringConstant string
| LSLKeyConstant string
| LSLVectorConstant float32 float32 float32
| LSLQuaternionConstant float32 float32 float32 float32
| LSLListConstant "lsl_expr list"
| LSLVectorExpression "lsl_expr list"
| LSLQuaternionExpression "lsl_expr list"
| LSLListExpression "lsl_expr list"
| LSLTypecastExpression lsl_type lsl_expr
| LSLFunctionExpression lsl_type lsl_symbol "lsl_expr list"
| LSLLValueExpression lsl_type lsl_symbol lsl_identifier "lsl_identifier option"
| LSLBinaryExpression lsl_type lsl_operator lsl_expr lsl_expr bool
| LSLUnaryExpression lsl_type lsl_operator lsl_expr bool
| LSLPrintExpression lsl_type lsl_expr
| LSLParenthesisExpression lsl_type lsl_expr
| LSLBoolConversionExpression lsl_expr
| LSLConstantExpression lsl_type lsl_expr

fun getIType :: "lsl_expr \<Rightarrow> lsl_type" where
  "getIType (LSLIntegerConstant v) = LST_INTEGER"
| "getIType (LSLFloatConstant v) = LST_FLOATINGPOINT"
| "getIType (LSLStringConstant v) = LST_STRING"
| "getIType (LSLKeyConstant v) = LST_KEY"
| "getIType (LSLVectorConstant x y z) = LST_VECTOR"
| "getIType (LSLQuaternionConstant x y z s) = LST_QUATERNION"
| "getIType (LSLListConstant children) = LST_LIST"
| "getIType (LSLVectorExpression children) = LST_VECTOR"
| "getIType (LSLQuaternionExpression children) = LST_QUATERNION"
| "getIType (LSLListExpression children) = LST_LIST"
| "getIType (LSLTypecastExpression ty child) = ty"
| "getIType (LSLFunctionExpression ty symb args) = ty"
| "getIType (LSLLValueExpression ty symb ident member) = ty"
| "getIType (LSLBinaryExpression ty op lhs rhs needed) = ty"
| "getIType (LSLUnaryExpression ty op child needed) = ty"
| "getIType (LSLPrintExpression ty child) = ty"
| "getIType (LSLParenthesisExpression ty child) = ty"
| "getIType (LSLBoolConversionExpression child) = LST_INTEGER"
| "getIType (LSLConstantExpression ty child) = ty"

text \<open>\<open>getSymbol()\<close> is virtual on every node and null where a node has no symbol.\<close>

fun getSymbol :: "lsl_expr \<Rightarrow> lsl_symbol option" where
  "getSymbol (LSLLValueExpression ty symb ident member) = Some symb"
| "getSymbol (LSLFunctionExpression ty symb args) = Some symb"
| "getSymbol e = None"

text \<open>
  Modelled from the spec: \<open>LSLType::getDefaultValue\<close> of the front end's library, the
  constant node of a type's zero value (integer 0, float 0.0, empty string, empty key,
  all-zero vector and quaternion, empty list); null for a tag that is no value type.
\<close>

fun getDefaultValue :: "lsl_type \<Rightarrow> lsl_expr option" where
  "getDefaultValue LST_INTEGER = Some (LSLIntegerConstant 0)"
| "getDefaultValue LST_FLOATINGPOINT = Some (LSLFloatConstant 0)"
| "getDefaultValue LST_STRING = Some (LSLStringConstant [])"
| "getDefaultValue LST_KEY = Some (LSLKeyConstant [])"
| "getDefaultValue LST_VECTOR = Some (LSLVectorConstant 0 0 0)"
| "getDefaultValue LST_QUATERNION = Some (LSLQuaternionConstant 0 0 0 0)"
| "getDefaultValue LST_LIST = Some (LSLListConstant [])"
| "getDefaultValue ty = None"

text \<open>
  Modelled from the spec: \<open>LSLType::getOneValue\<close> of the front end's library, the
  constant node an increment or decrement by one adds: integer 1 and float 1.0
  (bit pattern \<open>0x3F800000\<close>); null for every other type.
\<close>

fun getOneValue :: "lsl_type \<Rightarrow> lsl_expr option" where
  "getOneValue LST_INTEGER = Some (LSLIntegerConstant 1)"
| "getOneValue LST_FLOATINGPOINT = Some (LSLFloatConstant 0x3F800000)"
| "getOneValue ty = None"

datatype lsl_stmt =
  LSLNopStatement
| LSLCompoundStatement "lsl_stmt list"
| LSLExpressionStatement lsl_expr
| LSLDeclaration lsl_symbol "lsl_expr option"
| LSLIfStatement lsl_expr lsl_stmt "lsl_stmt option"
| LSLForStatement "lsl_expr list" lsl_expr lsl_stmt "lsl_expr list"
| LSLWhileStatement lsl_expr lsl_stmt
| LSLDoStatement lsl_stmt lsl_expr
| LSLJumpStatement lsl_symbol
| LSLLabel lsl_symbol
| LSLReturnStatement "lsl_expr option"
| LSLStateStatement lsl_symbol

text \<open>
  A global is a variable (identifier, symbol, optional initializer) or a function
  (identifier, parameters, body); \<open>getNodeType()\<close> tells them apart.
\<close>

datatype lsl_global =
  LSLGlobalVariable lsl_identifier lsl_symbol "lsl_expr option"
| LSLGlobalFunction lsl_identifier "lsl_identifier list" lsl_stmt

datatype lsl_node_type = NODE_GLOBAL_VARIABLE | NODE_GLOBAL_FUNCTION

fun getNodeType :: "lsl_global \<Rightarrow> lsl_node_type" where
  "getNodeType (LSLGlobalVariable ident symb initializer) = NODE_GLOBAL_VARIABLE"
| "getNodeType (LSLGlobalFunction ident args body) = NODE_GLOBAL_FUNCTION"

record lsl_event_handler =
  eh_identifier :: lsl_identifier
  eh_arguments :: "lsl_identifier list"
  eh_statements :: lsl_stmt

record lsl_state =
  state_symbol :: lsl_symbol
  state_handlers :: "lsl_event_handler list"

text \<open>
  The script after the desugaring pass that \<open>visit(LSLScript *)\<close> runs first: that pass
  belongs to the front end's library and rewrites expressions in place (explicit casts,
  compound assignments), so the tree modelled here is the one the generator walks.
\<close>

record lsl_script =
  getGlobals :: "lsl_global list"
  getStates :: "lsl_state list"

section \<open>The generator\<close>

text \<open>A range-based \<open>for\<close> over a list of nodes.\<close>

definition for_each :: "'a list \<Rightarrow> ('a \<Rightarrow> step) \<Rightarrow> step" where
  "for_each xs body = steps (map body xs)"

text \<open>\<open>node->visit(this)\<close> through a pointer that may be null.\<close>

definition visit_ptr :: "('a \<Rightarrow> step) \<Rightarrow> 'a option \<Rightarrow> step" where
  "visit_ptr visit node = (case node of None \<Rightarrow> abort Undefined_behaviour | Some n \<Rightarrow> visit n)"

text \<open>
  \<open>member_to_offset\<close>: the switch reads \<open>member[0]\<close>, which is the terminating NUL of an
  empty name. The default branch sets offset 0 and asserts.
\<close>

definition member_to_offset :: "env \<Rightarrow> string \<Rightarrow> fault + int" where
  "member_to_offset env member =
     (let c = (case member of [] \<Rightarrow> CHR 0x00 | c # rest \<Rightarrow> c) in
      if c = CHR ''x'' then Inr 0
      else if c = CHR ''y'' then Inr 1
      else if c = CHR ''z'' then Inr 2
      else if c = CHR ''s'' then Inr 3
      else if NDEBUG env then Inr 0 else Inl Assertion_failed)"

text \<open>\<open>mStr << member_to_offset(member->getName())\<close>.\<close>

definition write_offset :: "env \<Rightarrow> lsl_identifier \<Rightarrow> step" where
  "write_offset env member =
     (case member_to_offset env (id_name member) of
        Inl e \<Rightarrow> abort e
      | Inr offset \<Rightarrow> emit (dec_int offset))"

text \<open>\<open>constructMutatedMember\<close>; the last argument is the visit of the right-hand side.\<close>

definition constructMutatedMember :: "env \<Rightarrow> lsl_symbol \<Rightarrow> lsl_identifier \<Rightarrow> step \<Rightarrow> step" where
  "constructMutatedMember env symb member visit_rhs =
     (case member_to_offset env (id_name member) of
        Inl e \<Rightarrow> abort e
      | Inr member_offset \<Rightarrow>
          steps [emit ''replace_coord_axis('',
                 if sym_sub_type symb = SYM_GLOBAL then emit ''self.'' else skip,
                 emit (sym_name symb @ '', '' @ dec_int member_offset @ '', ''),
                 visit_rhs,
                 emit '')''])"

text \<open>The operator switch of a binary expression that is no assignment.\<close>

fun binary_switch :: "env \<Rightarrow> lsl_operator \<Rightarrow> step" where
  "binary_switch env (OpChar c) =
     (if c = CHR ''+'' then emit ''radd(''
      else if c = CHR ''-'' then emit ''rsub(''
      else if c = CHR ''*'' then emit ''rmul(''
      else if c = CHR ''/'' then emit ''rdiv(''
      else if c = CHR ''%'' then emit ''rmod(''
      else steps [assert0 env, emit ''<ERROR>''])"
| "binary_switch env OP_EQ = emit ''req(''"
| "binary_switch env OP_NEQ = emit ''rneq(''"
| "binary_switch env OP_GREATER = emit ''rgreater(''"
| "binary_switch env OP_LESS = emit ''rless(''"
| "binary_switch env OP_GEQ = emit ''rgeq(''"
| "binary_switch env OP_LEQ = emit ''rleq(''"
| "binary_switch env OP_BOOLEAN_AND = emit ''rbooland(''"
| "binary_switch env OP_BOOLEAN_OR = emit ''rboolor(''"
| "binary_switch env OP_BIT_AND = emit ''rbitand(''"
| "binary_switch env OP_BIT_OR = emit ''rbitor(''"
| "binary_switch env OP_BIT_XOR = emit ''rbitxor(''"
| "binary_switch env OP_SHIFT_LEFT = emit ''rshl(''"
| "binary_switch env OP_SHIFT_RIGHT = emit ''rshr(''"
| "binary_switch env op = steps [assert0 env, emit ''<ERROR>'']"

text \<open>The operator switch of a unary expression that is no increment or decrement.\<close>

fun unary_switch :: "env \<Rightarrow> lsl_operator \<Rightarrow> step" where
  "unary_switch env (OpChar c) =
     (if c = CHR ''-'' then emit ''neg(''
      else if c = CHR ''~'' then emit ''bitnot(''
      else if c = CHR ''!'' then emit ''boolnot(''
      else steps [assert0 env, emit ''<ERROR>''])"
| "unary_switch env op = steps [assert0 env, emit ''<ERROR>'']"

text \<open>
  The \<open>visit\<close> overloads of the expression nodes. \<open>(LSLLValueExpression *) lhs\<close> is an
  unchecked cast: on any other node the behaviour is undefined.
  \<open>visit(LSLConstantExpression *)\<close> returns true, which makes the base visitor walk the
  node's child. The loop over the arguments of a call is the loop of \<open>writeChildrenSep\<close>
  written out. Integers beyond \<open>int\<close> do not occur in \<open>mTabs\<close>, which counts nested blocks.
\<close>

function (sequential) visit_expr :: "env \<Rightarrow> lsl_expr \<Rightarrow> step" where
  "visit_expr env (LSLIntegerConstant v) = emit (dec_int (sint v))"
| "visit_expr env (LSLFloatConstant v) = writeFloat env v"
| "visit_expr env (LSLStringConstant v) =
     steps [emit [dquote], emit (escape_string env v), emit [dquote]]"
| "visit_expr env (LSLKeyConstant v) =
     steps [emit (''Key('' @ [dquote]), emit (escape_string env v), emit ([dquote] @ '')'')]"
| "visit_expr env (LSLVectorConstant x y z) =
     steps [emit ''Vector(('', writeFloat env x, emit '', '', writeFloat env y, emit '', '',
            writeFloat env z, emit ''))'']"
| "visit_expr env (LSLQuaternionConstant x y z s) =
     steps [emit ''Quaternion(('', writeFloat env x, emit '', '', writeFloat env y, emit '', '',
            writeFloat env z, emit '', '', writeFloat env s, emit ''))'']"
| "visit_expr env (LSLVectorExpression children) =
     steps [emit ''Vector(('', writeChildrenSep (map (visit_expr env) children) '', '', emit ''))'']"
| "visit_expr env (LSLQuaternionExpression children) =
     steps [emit ''Quaternion(('', writeChildrenSep (map (visit_expr env) children) '', '',
            emit ''))'']"
| "visit_expr env (LSLTypecastExpression to_type child_expr) =
     (let from_type = getIType child_expr in
      if from_type = LST_INTEGER \<and> to_type = LST_FLOATINGPOINT then
        steps [emit ''float('', visit_expr env child_expr, emit '')'']
      else
        steps [emit ''typecast('', visit_expr env child_expr,
               emit ('', '' @ PY_TYPE_NAMES to_type @ '')'')])"
| "visit_expr env (LSLListConstant children) =
     steps [emit ''['', writeChildrenSep (map (visit_expr env) children) '', '', emit '']'']"
| "visit_expr env (LSLListExpression children) =
     steps [emit ''['', writeChildrenSep (map (visit_expr env) children) '', '', emit '']'']"
| "visit_expr env (LSLFunctionExpression ty symb args) =
     steps [if sym_sub_type symb = SYM_BUILTIN then emit ''lslfuncs.'' else emit ''self.'',
            emit (sym_name symb @ ''(''),
            writeChildrenSep (map (visit_expr env) args) '', '',
            emit '')'']"
| "visit_expr env (LSLLValueExpression ty symb ident member) =
     steps [if sym_sub_type symb = SYM_GLOBAL then emit ''self.'' else skip,
            emit (id_name ident),
            case member of
              Some m \<Rightarrow> steps [emit ''['', write_offset env m, emit '']'']
            | None \<Rightarrow> skip]"
| "visit_expr env (LSLBinaryExpression ty op lhs rhs needed) =
     (if op = OpChar CHR ''='' then
        (case lhs of
           LSLLValueExpression lty symb ident member \<Rightarrow>
             (if \<not> needed then
                steps [if sym_sub_type symb = SYM_GLOBAL then emit ''self.'' else skip,
                       emit (sym_name symb @ '' = ''),
                       case member of
                         Some m \<Rightarrow> constructMutatedMember env symb m (visit_expr env rhs)
                       | None \<Rightarrow> visit_expr env rhs]
              else
                steps [if sym_sub_type symb = SYM_GLOBAL then
                         emit (''assign(self.__dict__, '' @ [dquote] @ sym_name symb @ [dquote] @ '', '')
                       else
                         emit (''('' @ sym_name symb @ '' := ''),
                       case member of
                         Some m \<Rightarrow> constructMutatedMember env symb m (visit_expr env rhs)
                       | None \<Rightarrow> visit_expr env rhs,
                       emit '')'',
                       case member of
                         Some m \<Rightarrow> steps [emit ''['', write_offset env m, emit '']'']
                       | None \<Rightarrow> skip])
         | _ \<Rightarrow> abort Undefined_behaviour)
      else if op = OP_MUL_ASSIGN then
        (case getSymbol lhs of
           None \<Rightarrow> abort Undefined_behaviour
         | Some symb \<Rightarrow>
             steps [if sym_sub_type symb = SYM_GLOBAL then
                      emit (''assign(self.__dict__, '' @ [dquote] @ sym_name symb @ [dquote] @ '', '')
                    else
                      emit (''('' @ sym_name symb @ '' := ''),
                    emit ''typecast(rmul('',
                    visit_expr env rhs,
                    emit '', '',
                    visit_expr env lhs,
                    emit ''), int))''])
      else
        steps [binary_switch env op, visit_expr env rhs, emit '', '', visit_expr env lhs, emit '')''])"
| "visit_expr env (LSLUnaryExpression ty op child_expr needed) =
     (if op = OP_POST_DECR \<or> op = OP_POST_INCR \<or> op = OP_PRE_DECR \<or> op = OP_PRE_INCR then
        (let post = (op = OP_POST_INCR \<or> op = OP_POST_DECR);
             negative = (op = OP_POST_DECR \<or> op = OP_PRE_DECR) in
         case child_expr of
           LSLLValueExpression lty symb ident member \<Rightarrow>
             (let global = (sym_sub_type symb = SYM_GLOBAL) in
              if needed \<or> member \<noteq> None then
                steps [if post then emit ''post'' else emit ''pre'',
                       if negative then emit ''decr'' else emit ''incr'',
                       emit ''('',
                       if global then emit ''self.__dict__'' else emit ''locals()'',
                       emit ('', '' @ [dquote] @ sym_name symb @ [dquote]),
                       case member of
                         Some m \<Rightarrow> steps [emit '', '', write_offset env m]
                       | None \<Rightarrow> skip,
                       emit '')'']
              else
                steps [if sym_sub_type symb = SYM_GLOBAL then emit ''self.'' else skip,
                       emit (sym_name symb),
                       if op = OP_POST_DECR \<or> op = OP_PRE_DECR then emit '' -= '' else emit '' += '',
                       case getOneValue (getIType child_expr) of
                         None \<Rightarrow> abort Undefined_behaviour
                       | Some one \<Rightarrow> visit_expr env one])
         | _ \<Rightarrow> abort Undefined_behaviour)
      else
        steps [unary_switch env op, visit_expr env child_expr, emit '')''])"
| "visit_expr env (LSLPrintExpression ty child_expr) =
     steps [emit ''print('', visit_expr env child_expr, emit '')'']"
| "visit_expr env (LSLParenthesisExpression ty child_expr) =
     steps [emit ''('', visit_expr env child_expr, emit '')'']"
| "visit_expr env (LSLBoolConversionExpression child_expr) =
     steps [emit ''cond('', visit_expr env child_expr, emit '')'']"
| "visit_expr env (LSLConstantExpression ty child) = visit_expr env child"
  by pat_completeness auto

termination
  by (relation "measure (\<lambda>p. size (snd p))")
     (auto simp add: less_Suc_eq_le size_list_estimation' elim!: getOneValue.elims)

text \<open>
  The \<open>visit\<close> overloads of the statement nodes. \<open>visitChildren\<close> of the base visitor
  visits the children in order.
\<close>

fun visit_stmt :: "env \<Rightarrow> lsl_stmt \<Rightarrow> step" where
  "visit_stmt env LSLNopStatement = steps [doTabs, emit ''pass\<newline>'']"
| "visit_stmt env (LSLCompoundStatement children) =
     (if children \<noteq> [] then steps (map (visit_stmt env) children)
      else steps [doTabs, emit ''pass\<newline>''])"
| "visit_stmt env (LSLExpressionStatement expr) =
     steps [doTabs, visit_expr env expr, emit ''\<newline>'']"
| "visit_stmt env (LSLDeclaration symb initializer) =
     steps [doTabs,
            emit (sym_name symb @ '': '' @ PY_TYPE_NAMES (sym_itype symb) @ '' = ''),
            visit_ptr (visit_expr env)
              (case initializer of None \<Rightarrow> getDefaultValue (sym_itype symb) | Some i \<Rightarrow> Some i),
            emit ''\<newline>'']"
| "visit_stmt env (LSLIfStatement check_expr true_branch false_branch) =
     steps [doTabs, emit ''if '', visit_expr env check_expr, emit '':\<newline>'',
            indented (visit_stmt env true_branch),
            case false_branch of
              Some branch \<Rightarrow> steps [doTabs, emit ''else:\<newline>'', indented (visit_stmt env branch)]
            | None \<Rightarrow> skip]"
| "visit_stmt env (LSLForStatement init_exprs check_expr body incr_exprs) =
     steps [for_each init_exprs
              (\<lambda>init_expr. steps [doTabs, visit_expr env init_expr, emit ''\<newline>'']),
            doTabs, emit ''while True:\<newline>'',
            indented (steps
              [doTabs, emit ''if not '', visit_expr env check_expr, emit '':\<newline>'',
               indented (steps [doTabs, emit ''break\<newline>'']),
               visit_stmt env body,
               for_each incr_exprs
                 (\<lambda>incr_expr. steps [doTabs, visit_expr env incr_expr, emit ''\<newline>''])])]"
| "visit_stmt env (LSLWhileStatement check_expr body) =
     steps [doTabs, emit ''while '', visit_expr env check_expr, emit '':\<newline>'',
            indented (visit_stmt env body)]"
| "visit_stmt env (LSLDoStatement body check_expr) =
     steps [doTabs, emit ''while True:\<newline>'',
            indented (steps
              [visit_stmt env body,
               doTabs, emit ''if not '', visit_expr env check_expr, emit '':\<newline>'',
               indented (steps [doTabs, emit ''break\<newline>''])])]"
| "visit_stmt env (LSLJumpStatement symb) =
     steps [doTabs, emit (''goto .'' @ sym_name symb @ ''\<newline>'')]"
| "visit_stmt env (LSLLabel symb) =
     steps [doTabs, emit (''label .'' @ sym_name symb @ ''\<newline>'')]"
| "visit_stmt env (LSLReturnStatement expr) =
     steps [doTabs,
            case expr of
              Some e \<Rightarrow> steps [emit ''return '', visit_expr env e]
            | None \<Rightarrow> emit ''return'',
            emit ''\<newline>'']"
| "visit_stmt env (LSLStateStatement symb) =
     steps [doTabs,
            emit (''raise StateChangeException('' @ [squote] @ sym_name symb @ [squote] @ '')\<newline>'')]"

text \<open>The parameter list of a function or an event handler, after \<open>self\<close>.\<close>

definition write_arguments :: "lsl_identifier list \<Rightarrow> step" where
  "write_arguments args =
     for_each args (\<lambda>arg. emit ('', '' @ id_name arg @ '': '' @ PY_TYPE_NAMES (id_itype arg)))"

text \<open>\<open>visit(LSLGlobalVariable *)\<close> and \<open>visit(LSLGlobalFunction *)\<close>.\<close>

fun visit_global :: "env \<Rightarrow> lsl_global \<Rightarrow> step" where
  "visit_global env (LSLGlobalVariable ident symb initializer) =
     steps [doTabs,
            emit (''self.'' @ sym_name symb @ '' = ''),
            visit_ptr (visit_expr env)
              (case initializer of None \<Rightarrow> getDefaultValue (sym_itype symb) | Some i \<Rightarrow> Some i),
            emit ''\<newline>'']"
| "visit_global env (LSLGlobalFunction ident args body) =
     steps [doTabs, emit ''@with_goto\<newline>'',
            doTabs, emit (''def '' @ id_name ident @ ''(self''),
            write_arguments args,
            emit ('') -> '' @ PY_TYPE_NAMES (id_itype ident) @ '':\<newline>''),
            indented (steps [visit_stmt env body, emit ''\<newline>''])]"

text \<open>
  \<open>visit(LSLEventHandler *)\<close>. \<open>state_sym\<close> is the symbol of the state two parents up,
  which the walk over the states passes down.
\<close>

definition visit_event_handler :: "env \<Rightarrow> lsl_symbol \<Rightarrow> lsl_event_handler \<Rightarrow> step" where
  "visit_event_handler env state_sym event_handler =
     (let ident = eh_identifier event_handler in
      steps [doTabs, emit ''@with_goto\<newline>'',
             doTabs, emit (''def e'' @ sym_name state_sym @ id_name ident @ ''(self''),
             write_arguments (eh_arguments event_handler),
             emit ('') -> '' @ PY_TYPE_NAMES (id_itype ident) @ '':\<newline>''),
             indented (steps [visit_stmt env (eh_statements event_handler), emit ''\<newline>''])])"

text \<open>
  The generator has no overload for a state or for the list of states: the base visitor
  walks their children, which reaches every event handler in order.
\<close>

definition visit_states :: "env \<Rightarrow> lsl_state list \<Rightarrow> step" where
  "visit_states env sts =
     for_each sts (\<lambda>st. for_each (state_handlers st) (visit_event_handler env (state_symbol st)))"

text \<open>The type declaration of one global variable at class level.\<close>

fun declare_global :: "lsl_global \<Rightarrow> step" where
  "declare_global (LSLGlobalVariable ident symb initializer) =
     steps [doTabs, emit (id_name ident @ '': '' @ PY_TYPE_NAMES (id_itype ident) @ ''\<newline>'')]"
| "declare_global glob = skip"

text \<open>\<open>visit(LSLScript *)\<close>; a \<open>continue\<close> in one of its loops is \<open>skip\<close>.\<close>

definition visit_script :: "env \<Rightarrow> lsl_script \<Rightarrow> step" where
  "visit_script env script =
     steps [emit ''from lummao import *\<newline>\<newline>\<newline>'',
            emit ''class Script(BaseLSLScript):\<newline>'',
            indented (steps
              [for_each (getGlobals script)
                 (\<lambda>glob. if getNodeType glob \<noteq> NODE_GLOBAL_VARIABLE then skip
                          else declare_global glob),
               emit ''\<newline>'',
               doTabs, emit ''def __init__(self):\<newline>'',
               indented (steps
                 [doTabs, emit ''super().__init__()\<newline>'',
                  for_each (getGlobals script)
                    (\<lambda>glob. if getNodeType glob \<noteq> NODE_GLOBAL_VARIABLE then skip
                             else visit_global env glob),
                  emit ''\<newline>'']),
               for_each (getGlobals script)
                 (\<lambda>glob. if getNodeType glob \<noteq> NODE_GLOBAL_FUNCTION then skip
                          else visit_global env glob),
               visit_states env (getStates script)])]"

section \<open>The driver\<close>

text \<open>
  The result of a run is what \<open>main\<close> returns (\<open>returned\<close>), what went to the two
  standard streams, whether the generator ran, and what the output file holds.
  What a run of \<open>main\<close> meets outside the generator: whether the input opens, what the
  front end's parser returns, the logger's error count after the analysis passes and after
  the validation passes that run when the count was zero, whether the output stream is
  good after it was opened, and whether the write to it goes through.
\<close>

record world =
  input_opens :: bool
  parsed :: "lsl_script option"
  errors_analysed :: int
  errors_validated :: int
  output_good :: bool
  write_succeeds :: bool

record outcome =
  returned :: int
  stderr :: "string list"
  stdout :: string
  generated :: bool
  written :: "string option"

definition getErrors :: "world \<Rightarrow> int" where
  "getErrors w =
     (case parsed w of
        None \<Rightarrow> errors_analysed w
      | Some script \<Rightarrow> if errors_analysed w = 0 then errors_validated w else errors_analysed w)"

text \<open>
  \<open>main\<close>; \<open>argv\<close> holds the program name and the arguments, its length is \<open>argc\<close>.
  The result of \<open>py_out.write\<close> is not looked at. The logger's own report goes to
  the front end's stream and is left out of \<open>stderr\<close>.
\<close>

definition main :: "env \<Rightarrow> world \<Rightarrow> string list \<Rightarrow> fault + outcome" where
  "main env w argv =
     (if length argv \<noteq> 3 then
        Inr \<lparr>returned = 1, stderr = [''lummao <lsl_script> <out_py>\<newline>''], stdout = [],
             generated = False, written = None\<rparr>
      else if argv ! 1 \<noteq> ''-'' \<and> \<not> input_opens w then
        Inr \<lparr>returned = 1, stderr = [''couldn'' @ [squote] @ ''t open '' @ argv ! 1 @ ''\<newline>''],
             stdout = [], generated = False, written = None\<rparr>
      else if getErrors w = 0 then
        (case parsed w of
           None \<Rightarrow> Inl Undefined_behaviour
         | Some script \<Rightarrow>
             (case visit_script env script \<lparr>mStr = [], mTabs = 0\<rparr> of
                Inl e \<Rightarrow> Inl e
              | Inr py_visitor \<Rightarrow>
                  (let py_code = mStr py_visitor in
                   if argv ! 2 = ''-'' then
                     Inr \<lparr>returned = getErrors w, stderr = [], stdout = py_code,
                          generated = True, written = None\<rparr>
                   else if output_good w then
                     Inr \<lparr>returned = getErrors w, stderr = [], stdout = [], generated = True,
                          written = (if write_succeeds w then Some py_code else None)\<rparr>
                   else
                     Inr \<lparr>returned = 1,
                          stderr = [''Couldn'' @ [squote] @ ''t open '' @ [squote] @ argv ! 2
                                    @ [squote] @ ''\<newline>''],
                          stdout = [], generated = True, written = None\<rparr>)))
      else
        Inr \<lparr>returned = getErrors w, stderr = [], stdout = [], generated = False, written = None\<rparr>)"

text \<open>
  The exit status of the process, as the parent sees it: the low eight bits of the value
  \<open>main\<close> returns.
\<close>

definition exit_status :: "outcome \<Rightarrow> int" where
  "exit_status out = returned out mod 256"

section \<open>Reading the emitted float text back\<close>

definition digit_value :: "nat \<Rightarrow> char \<Rightarrow> nat option" where
  "digit_value base c =
     (case filter (\<lambda>d. digit_chars ! d = c) [0..<base] of [] \<Rightarrow> None | d # ds \<Rightarrow> Some d)"

fun parse_digits :: "nat \<Rightarrow> string \<Rightarrow> nat option" where
  "parse_digits acc [] = Some acc"
| "parse_digits acc (c # cs) =
     (case digit_value 10 c of None \<Rightarrow> None | Some d \<Rightarrow> parse_digits (10 * acc + d) cs)"

text \<open>
  The sign and the magnitude that a text of the form \<open>[-]digits.0\<close> denotes as a
  floating literal of the target language (the minus sign of \<open>-0.0\<close> is kept there).
\<close>

definition literal_value :: "string \<Rightarrow> (bool \<times> nat) option" where
  "literal_value txt =
     (let negative = (txt \<noteq> [] \<and> hd txt = CHR ''-'');
          body = (if negative then tl txt else txt);
          n = length body
      in if 3 \<le> n \<and> drop (n - 2) body = ''.0''
         then map_option (Pair negative) (parse_digits 0 (take (n - 2) body))
         else None)"

text \<open>
  Modelled from the spec: \<open>bin2float\<close> of the runtime library, which is outside the
  generator. Its second argument is eight hexadecimal digits, the four bytes of the
  float in the host's byte order; the first argument is never parsed.
\<close>

fun parse_hex_bytes :: "string \<Rightarrow> 8 word list option" where
  "parse_hex_bytes [] = Some []"
| "parse_hex_bytes [c] = None"
| "parse_hex_bytes (hi # lo # cs) =
     (case (digit_value 16 hi, digit_value 16 lo, parse_hex_bytes cs) of
        (Some h, Some l, Some bs) \<Rightarrow> Some (of_nat (16 * h + l) # bs)
      | _ \<Rightarrow> None)"

definition bin2float :: "env \<Rightarrow> string \<Rightarrow> float32 option" where
  "bin2float env hex =
     (case parse_hex_bytes hex of
        Some [b0, b1, b2, b3] \<Rightarrow>
          (let le = (if big_endian env then [b3, b2, b1, b0] else [b0, b1, b2, b3]) in
           Some (ucast (le ! 0) OR push_bit 8 (ucast (le ! 1)) OR push_bit 16 (ucast (le ! 2))
                 OR push_bit 24 (ucast (le ! 3))))
      | _ \<Rightarrow> None)"

section \<open>The text a visit appends\<close>

text \<open>
  The properties below are stated on the text that a visit appends to the stream.
  \<open>output_of f n\<close> runs a step on an empty stream at indentation depth \<open>n\<close>;
  \<open>appends\<close> says that a step does nothing but append that text to whatever the stream
  holds, and \<open>flat\<close> that the text does not depend on the depth either.
\<close>

definition tabs :: "int \<Rightarrow> string" where
  "tabs n = concat (replicate (nat n) ''    '')"

definition append_result :: "visitor \<Rightarrow> fault + string \<Rightarrow> fault + visitor" where
  "append_result s r = (case r of Inl e \<Rightarrow> Inl e | Inr txt \<Rightarrow> Inr (s\<lparr>mStr := mStr s @ txt\<rparr>))"

definition output_of :: "step \<Rightarrow> int \<Rightarrow> fault + string" where
  "output_of f n = (case f \<lparr>mStr = [], mTabs = n\<rparr> of Inl e \<Rightarrow> Inl e | Inr s \<Rightarrow> Inr (mStr s))"

definition appends :: "step \<Rightarrow> bool" where
  "appends f \<longleftrightarrow> (\<forall>s. f s = append_result s (output_of f (mTabs s)))"

definition flat :: "step \<Rightarrow> bool" where
  "flat f \<longleftrightarrow> (\<forall>s. f s = append_result s (output_of f 0))"

definition cat :: "fault + string \<Rightarrow> fault + string \<Rightarrow> fault + string" where
  "cat a b = (case a of Inl e \<Rightarrow> Inl e | Inr x \<Rightarrow> (case b of Inl e \<Rightarrow> Inl e | Inr y \<Rightarrow> Inr (x @ y)))"

definition expr_text :: "env \<Rightarrow> lsl_expr \<Rightarrow> fault + string" where
  "expr_text env e = output_of (visit_expr env e) 0"

definition stmt_text :: "env \<Rightarrow> int \<Rightarrow> lsl_stmt \<Rightarrow> fault + string" where
  "stmt_text env n st = output_of (visit_stmt env st) n"

text \<open>The operators of the binary switch with the helper each one is routed to.\<close>

definition non_assignment_operators :: "(lsl_operator \<times> string) list" where
  "non_assignment_operators =
     [(OpChar CHR ''+'', ''radd''), (OpChar CHR ''-'', ''rsub''), (OpChar CHR ''*'', ''rmul''),
      (OpChar CHR ''/'', ''rdiv''), (OpChar CHR ''%'', ''rmod''),
      (OP_EQ, ''req''), (OP_NEQ, ''rneq''), (OP_GREATER, ''rgreater''), (OP_LESS, ''rless''),
      (OP_GEQ, ''rgeq''), (OP_LEQ, ''rleq''),
      (OP_BOOLEAN_AND, ''rbooland''), (OP_BOOLEAN_OR, ''rboolor''),
      (OP_BIT_AND, ''rbitand''), (OP_BIT_OR, ''rbitor''), (OP_BIT_XOR, ''rbitxor''),
      (OP_SHIFT_LEFT, ''rshl''), (OP_SHIFT_RIGHT, ''rshr'')]"

text \<open>The variable or attribute an assignment rebinds.\<close>

definition target_name :: "lsl_symbol \<Rightarrow> string" where
  "target_name symb = (if sym_sub_type symb = SYM_GLOBAL then ''self.'' else []) @ sym_name symb"

text \<open>The offset of each coordinate letter.\<close>

definition coordinate_offsets :: "(char \<times> int) list" where
  "coordinate_offsets = [(CHR ''x'', 0), (CHR ''y'', 1), (CHR ''z'', 2), (CHR ''s'', 3)]"

text \<open>The call that builds the composite with component \<open>k\<close> replaced by \<open>R\<close>.\<close>

definition replaced_composite :: "lsl_symbol \<Rightarrow> int \<Rightarrow> string \<Rightarrow> string" where
  "replaced_composite symb k R =
     ''replace_coord_axis('' @ target_name symb @ '', '' @ dec_int k @ '', '' @ R @ '')''"

definition incr_decr_helpers :: "(lsl_operator \<times> string) list" where
  "incr_decr_helpers =
     [(OP_PRE_INCR, ''preincr''), (OP_PRE_DECR, ''predecr''),
      (OP_POST_INCR, ''postincr''), (OP_POST_DECR, ''postdecr'')]"

definition decrements :: "lsl_operator \<Rightarrow> bool" where
  "decrements op \<longleftrightarrow> op = OP_PRE_DECR \<or> op = OP_POST_DECR"

definition container :: "lsl_symbol \<Rightarrow> string" where
  "container symb = (if sym_sub_type symb = SYM_GLOBAL then ''self.__dict__'' else ''locals()'')"

text \<open>One statement line per clause text, at depth \<open>n\<close>.\<close>

definition clause_lines :: "int \<Rightarrow> string list \<Rightarrow> string" where
  "clause_lines n txts = concat (map (\<lambda>txt. tabs n @ txt @ ''\<newline>'') txts)"

text \<open>The operators of the unary switch with the helper each one is routed to.\<close>

definition unary_operators :: "(lsl_operator \<times> string) list" where
  "unary_operators =
     [(OpChar CHR ''-'', ''neg''), (OpChar CHR ''~'', ''bitnot''), (OpChar CHR ''!'', ''boolnot'')]"

text \<open>The member names the offset switch has a case for.\<close>

definition member_known :: "string \<Rightarrow> bool" where
  "member_known name = (case name of [] \<Rightarrow> False | c # rest \<Rightarrow> c \<in> set ''xyzs'')"

text \<open>
  The front end's contract on operators and member names: every operator of the tree
  belongs to the sets the generator has a branch for, and every member name starts with
  one of the four coordinate letters.
\<close>

fun operators_known :: "lsl_expr \<Rightarrow> bool" where
  "operators_known (LSLListConstant children) = (\<forall>e \<in> set children. operators_known e)"
| "operators_known (LSLVectorExpression children) = (\<forall>e \<in> set children. operators_known e)"
| "operators_known (LSLQuaternionExpression children) = (\<forall>e \<in> set children. operators_known e)"
| "operators_known (LSLListExpression children) = (\<forall>e \<in> set children. operators_known e)"
| "operators_known (LSLTypecastExpression ty child) = operators_known child"
| "operators_known (LSLFunctionExpression ty symb args) = (\<forall>e \<in> set args. operators_known e)"
| "operators_known (LSLLValueExpression ty symb ident member) =
     (case member of None \<Rightarrow> True | Some m \<Rightarrow> member_known (id_name m))"
| "operators_known (LSLBinaryExpression ty op lhs rhs needed) =
     ((op = OpChar CHR ''='' \<or> op = OP_MUL_ASSIGN \<or> op \<in> fst ` set non_assignment_operators)
      \<and> operators_known lhs \<and> operators_known rhs)"
| "operators_known (LSLUnaryExpression ty op child needed) =
     ((op \<in> fst ` set incr_decr_helpers \<or> op \<in> fst ` set unary_operators)
      \<and> operators_known child)"
| "operators_known (LSLPrintExpression ty child) = operators_known child"
| "operators_known (LSLParenthesisExpression ty child) = operators_known child"
| "operators_known (LSLBoolConversionExpression child) = operators_known child"
| "operators_known (LSLConstantExpression ty child) = operators_known child"
| "operators_known e = True"

text \<open>A step that appends a fixed text or faults, but never on an assertion.\<close>

definition quiet :: "step \<Rightarrow> bool" where
  "quiet f \<longleftrightarrow> flat f \<and> output_of f 0 \<noteq> Inl Assertion_failed"

text \<open>
  The global variables of a script in source order, the class-level declaration line and
  the constructor's assignment line of one of them, and the expression the constructor
  assigns: the declared initializer, or the default value of the type.
\<close>

definition global_variables :: "lsl_script \<Rightarrow> lsl_global list" where
  "global_variables script = filter (\<lambda>g. getNodeType g = NODE_GLOBAL_VARIABLE) (getGlobals script)"

fun declaration_line :: "int \<Rightarrow> lsl_global \<Rightarrow> string" where
  "declaration_line n (LSLGlobalVariable ident symb initializer) =
     tabs n @ id_name ident @ '': '' @ PY_TYPE_NAMES (id_itype ident) @ ''\<newline>''"
| "declaration_line n glob = []"

fun initial_value :: "lsl_global \<Rightarrow> lsl_expr option" where
  "initial_value (LSLGlobalVariable ident symb initializer) =
     (case initializer of Some i \<Rightarrow> Some i | None \<Rightarrow> getDefaultValue (sym_itype symb))"
| "initial_value glob = None"

fun assignment_line :: "int \<Rightarrow> lsl_global \<Rightarrow> string \<Rightarrow> string" where
  "assignment_line n (LSLGlobalVariable ident symb initializer) txt =
     tabs n @ ''self.'' @ sym_name symb @ '' = '' @ txt @ ''\<newline>''"
| "assignment_line n glob txt = []"

text \<open>What \<open>visit(LSLScript *)\<close> writes after the constructor: the functions, then the states.\<close>

definition members :: "env \<Rightarrow> lsl_script \<Rightarrow> step" where
  "members env script =
     steps [for_each (getGlobals script)
              (\<lambda>glob. if getNodeType glob \<noteq> NODE_GLOBAL_FUNCTION then skip
                       else visit_global env glob),
            visit_states env (getStates script)]"

text \<open>The text of a method named \<open>name\<close> for an event handler with body text \<open>body\<close>.\<close>

definition arguments_text :: "lsl_identifier list \<Rightarrow> string" where
  "arguments_text args =
     concat (map (\<lambda>arg. '', '' @ id_name arg @ '': '' @ PY_TYPE_NAMES (id_itype arg)) args)"

definition method_text :: "int \<Rightarrow> string \<Rightarrow> lsl_event_handler \<Rightarrow> string \<Rightarrow> string" where
  "method_text n name event_handler body =
     tabs n @ ''@with_goto\<newline>''
     @ tabs n @ ''def '' @ name @ ''(self'' @ arguments_text (eh_arguments event_handler)
     @ '') -> '' @ PY_TYPE_NAMES (id_itype (eh_identifier event_handler)) @ '':\<newline>''
     @ body @ ''\<newline>''"

section \<open>Concrete inputs\<close>

text \<open>
  A little-endian x86-64 build with assertions on. The string escaping and the readable
  hint are stand-ins: no property below depends on what they return.
\<close>

definition example_env :: env where
  "example_env =
     \<lparr>escape_string = (\<lambda>s. s), to_string = (\<lambda>f. ''hint''), big_endian = False,
      NDEBUG = False, int64_out_of_range = (\<lambda>f. 0x8000000000000000)\<rparr>"

definition example_local :: lsl_symbol where
  "example_local = \<lparr>sym_name = ''i'', sym_sub_type = SYM_LOCAL, sym_itype = LST_INTEGER\<rparr>"

definition example_global :: lsl_symbol where
  "example_global = \<lparr>sym_name = ''v'', sym_sub_type = SYM_GLOBAL, sym_itype = LST_VECTOR\<rparr>"

definition example_i :: lsl_expr where
  "example_i =
     LSLLValueExpression LST_INTEGER example_local \<lparr>id_name = ''i'', id_itype = LST_INTEGER\<rparr> None"


definition example_v_z :: lsl_expr where
  "example_v_z =
     LSLLValueExpression LST_FLOATINGPOINT example_global \<lparr>id_name = ''v'', id_itype = LST_VECTOR\<rparr>
       (Some \<lparr>id_name = ''z'', id_itype = LST_FLOATINGPOINT\<rparr>)"

definition example_state :: lsl_symbol where
  "example_state = \<lparr>sym_name = ''default'', sym_sub_type = SYM_GLOBAL, sym_itype = LST_NULL\<rparr>"

definition example_handler :: lsl_event_handler where
  "example_handler =
     \<lparr>eh_identifier = \<lparr>id_name = ''state_entry'', id_itype = LST_NULL\<rparr>,
      eh_arguments = [], eh_statements = LSLCompoundStatement []\<rparr>"

text \<open>The same build with assertions compiled out.\<close>

definition release_env :: env where
  "release_env = example_env\<lparr>NDEBUG := True\<rparr>"

definition example_script :: lsl_script where
  "example_script =
     \<lparr>getGlobals =
        [LSLGlobalVariable \<lparr>id_name = ''g'', id_itype = LST_INTEGER\<rparr>
           \<lparr>sym_name = ''g'', sym_sub_type = SYM_GLOBAL, sym_itype = LST_INTEGER\<rparr> None,
         LSLGlobalVariable \<lparr>id_name = ''h'', id_itype = LST_FLOATINGPOINT\<rparr>
           \<lparr>sym_name = ''h'', sym_sub_type = SYM_GLOBAL, sym_itype = LST_FLOATINGPOINT\<rparr>
           (Some (LSLFloatConstant 0x40A00000))],
      getStates = []\<rparr>"

definition example_code :: string where
  "example_code =
     ''from lummao import *\<newline>\<newline>\<newline>class Script(BaseLSLScript):\<newline>    g: int\<newline>    h: float\<newline>\<newline>    def __init__(self):\<newline>        super().__init__()\<newline>        self.g = 0\<newline>        self.h = 5.0\<newline>\<newline>''"

definition example_world :: world where
  "example_world =
     \<lparr>input_opens = True, parsed = Some example_script, errors_analysed = 0,
      errors_validated = 0, output_good = True, write_succeeds = True\<rparr>"

definition example_argv :: "string list" where
  "example_argv = [''lummao'', ''in.lsl'', ''out.py'']"

section \<open>Steps that append\<close>

lemma append_result_simps [simp]:
  "append_result s (Inl e) = Inl e"
  "append_result s (Inr txt) = Inr (s\<lparr>mStr := mStr s @ txt\<rparr>)"
  by (simp_all add: append_result_def)

lemma cat_simps [simp]:
  "cat (Inl e) b = Inl e"
  "cat (Inr x) (Inl e) = Inl e"
  "cat (Inr x) (Inr y) = Inr (x @ y)"
  by (simp_all add: cat_def)

lemma cat_assoc: "cat (cat a b) c = cat a (cat b c)"
  by (cases a; cases b; cases c) simp_all

lemma cat_Nil [simp]: "cat a (Inr []) = a" "cat (Inr []) a = a"
  by (cases a; simp)+

lemma cat_fault: "cat a b = Inl e \<Longrightarrow> a = Inl e \<or> b = Inl e"
  by (cases a; cases b) simp_all

lemma appendsI:
  assumes "\<And>s. f s = append_result s (r (mTabs s))"
  shows "appends f" and "output_of f = r"
proof -
  show o: "output_of f = r"
  proof
    fix n
    show "output_of f n = r n"
      using assms [of "\<lparr>mStr = [], mTabs = n\<rparr>"]
      by (cases "r n") (simp_all add: output_of_def)
  qed
  show "appends f"
    unfolding appends_def o using assms by simp
qed

lemma appendsD: "appends f \<Longrightarrow> f s = append_result s (output_of f (mTabs s))"
  by (simp add: appends_def)

lemma flatI:
  assumes "\<And>s. f s = append_result s r"
  shows "flat f" and "output_of f n = r"
proof -
  have *: "f s = append_result s ((\<lambda>_. r) (mTabs s))" for s
    using assms by simp
  show o: "output_of f n = r" for n
    using appendsI(2) [of f "\<lambda>_. r", OF *] by simp
  show "flat f"
    unfolding flat_def o using assms by simp
qed

lemma flatD: "flat f \<Longrightarrow> f s = append_result s (output_of f 0)"
  by (simp add: flat_def)

lemma flat_output: "flat f \<Longrightarrow> output_of f n = output_of f 0"
  using flatI(2) [of f "output_of f 0" n] by (simp add: flat_def)

lemma flat_appends: "flat f \<Longrightarrow> appends f"
proof -
  assume f: "flat f"
  have "f s = append_result s (output_of f (mTabs s))" for s
    using flatD [OF f, of s] flat_output [OF f, of "mTabs s"] by simp
  then show ?thesis
    by (simp add: appends_def)
qed

lemma emit_flat [simp]: "flat (emit txt)" and output_of_emit [simp]: "output_of (emit txt) n = Inr txt"
  by (rule flatI [where r = "Inr txt"], simp add: emit_def)+

lemma skip_flat [simp]: "flat skip" and output_of_skip [simp]: "output_of skip n = Inr []"
  by (rule flatI [where r = "Inr []"], simp add: skip_def)+

lemma abort_flat [simp]: "flat (abort e)" and output_of_abort [simp]: "output_of (abort e) n = Inl e"
  by (rule flatI [where r = "Inl e"], simp add: abort_def)+

lemma emit_appends [simp]: "appends (emit txt)"
  by (rule flat_appends) simp

lemma skip_appends [simp]: "appends skip"
  by (rule flat_appends) simp

lemma doTabs_appends [simp]: "appends doTabs" and output_of_doTabs [simp]: "output_of doTabs = (\<lambda>n. Inr (tabs n))"
  by (rule appendsI [where r = "\<lambda>n. Inr (tabs n)"], simp add: doTabs_def emit_def tabs_def)+

lemma and_then_appends:
  assumes "appends f" "appends g"
  shows "appends (and_then f g)"
    and "output_of (and_then f g) = (\<lambda>n. cat (output_of f n) (output_of g n))"
proof -
  have *: "and_then f g s = append_result s (cat (output_of f (mTabs s)) (output_of g (mTabs s)))" for s
  proof (cases "output_of f (mTabs s)")
    case (Inl e)
    then show ?thesis
      using appendsD [OF assms(1), of s] by (simp add: and_then_def)
  next
    case (Inr a)
    then have fs: "f s = Inr (s\<lparr>mStr := mStr s @ a\<rparr>)"
      using appendsD [OF assms(1), of s] by simp
    show ?thesis
      using appendsD [OF assms(2), of "s\<lparr>mStr := mStr s @ a\<rparr>"] Inr fs
      by (cases "output_of g (mTabs s)") (simp_all add: and_then_def)
  qed
  show "appends (and_then f g)"
    by (rule appendsI(1) [where r = "\<lambda>n. cat (output_of f n) (output_of g n)"]) (rule *)
  show "output_of (and_then f g) = (\<lambda>n. cat (output_of f n) (output_of g n))"
    by (rule appendsI(2) [where r = "\<lambda>n. cat (output_of f n) (output_of g n)"]) (rule *)
qed

lemma and_then_flat:
  assumes "flat f" "flat g"
  shows "flat (and_then f g)"
proof -
  have o: "output_of (and_then f g) n = cat (output_of f 0) (output_of g 0)" for n
    using and_then_appends(2) [OF flat_appends [OF assms(1)] flat_appends [OF assms(2)]]
      flat_output [OF assms(1), of n] flat_output [OF assms(2), of n] by simp
  have "and_then f g s = append_result s (output_of (and_then f g) (mTabs s))" for s
    using and_then_appends(1) [OF flat_appends [OF assms(1)] flat_appends [OF assms(2)]]
    by (rule appendsD)
  then show ?thesis
    unfolding flat_def o by simp
qed

lemma and_then_assoc: "and_then (and_then f g) h = and_then f (and_then g h)"
  by (simp add: and_then_def fun_eq_iff split: sum.split)

lemma and_then_skip: "and_then f skip = f"
  by (simp add: and_then_def skip_def fun_eq_iff split: sum.split)

lemma output_of_and_then:
  "appends f \<Longrightarrow> appends g \<Longrightarrow> output_of (and_then f g) n = cat (output_of f n) (output_of g n)"
  by (simp add: and_then_appends(2))

lemma steps_appends:
  assumes "list_all appends fs"
  shows "appends (steps fs)"
    and "output_of (steps fs) n = foldr (\<lambda>f r. cat (output_of f n) r) fs (Inr [])"
  using assms
proof (induction fs)
  case Nil
  { case 1 show ?case using flat_appends by simp }
  { case 2 show ?case by simp }
next
  case (Cons f fs)
  { case 1 then show ?case using Cons.IH(1) by (simp add: and_then_appends(1)) }
  { case 2 then show ?case using Cons.IH by (simp add: and_then_appends(2)) }
qed

lemma steps_flat:
  assumes "list_all flat fs"
  shows "flat (steps fs)"
  using assms by (induction fs) (simp_all add: and_then_flat)

lemma indented_appends:
  assumes "appends f"
  shows "appends (indented f)" and "output_of (indented f) = (\<lambda>n. output_of f (n + 1))"
proof -
  have *: "indented f s = append_result s (output_of f (mTabs s + 1))" for s
    using appendsD [OF assms, of "s\<lparr>mTabs := mTabs s + 1\<rparr>"]
    by (cases "output_of f (mTabs s + 1)") (simp_all add: indented_def ScopedTabSetter_def)
  show "appends (indented f)"
    by (rule appendsI(1) [where r = "\<lambda>n. output_of f (n + 1)"]) (rule *)
  show "output_of (indented f) = (\<lambda>n. output_of f (n + 1))"
    by (rule appendsI(2) [where r = "\<lambda>n. output_of f (n + 1)"]) (rule *)
qed

lemma output_of_indented: "appends f \<Longrightarrow> output_of (indented f) n = output_of f (n + 1)"
  by (simp add: indented_appends(2))

lemma writeChildrenSep_flat:
  assumes "list_all flat fs"
  shows "flat (writeChildrenSep fs sep)"
  using assms by (induction fs sep rule: writeChildrenSep.induct) (simp_all add: and_then_flat)

lemma for_each_appends:
  assumes "\<And>x. x \<in> set xs \<Longrightarrow> appends (body x)"
  shows "appends (for_each xs body)"
  unfolding for_each_def using assms by (intro steps_appends(1)) (simp add: list_all_iff)

lemma for_each_output:
  assumes "\<And>x. x \<in> set xs \<Longrightarrow> appends (body x)"
  shows "output_of (for_each xs body) n = foldr (\<lambda>x r. cat (output_of (body x) n) r) xs (Inr [])"
proof -
  have "list_all appends (map body xs)"
    using assms by (simp add: list_all_iff)
  then show ?thesis
    unfolding for_each_def by (simp add: steps_appends(2) foldr_map comp_def)
qed

lemma visit_ptr_flat: "(\<And>x. flat (visit x)) \<Longrightarrow> flat (visit_ptr visit node)"
  by (cases node) (simp_all add: visit_ptr_def)

section \<open>Every visit appends\<close>

text \<open>
  The visit of an expression appends a text that depends on the expression alone; the
  visit of a statement appends a text that depends on the statement and the depth.
\<close>

lemma assert0_flat [simp]: "flat (assert0 env)"
  by (simp add: assert0_def)

lemma writeFloat_flat [simp]: "flat (writeFloat env f)"
  by (simp add: writeFloat_def Let_def and_then_flat)

lemma write_offset_flat [simp]: "flat (write_offset env m)"
  by (simp add: write_offset_def split: sum.split)

lemma constructMutatedMember_flat: "flat rhs \<Longrightarrow> flat (constructMutatedMember env symb m rhs)"
  by (simp add: constructMutatedMember_def and_then_flat split: sum.split)

lemma binary_switch_flat [simp]: "flat (binary_switch env op)"
  by (cases op) (simp_all add: and_then_flat)

lemma unary_switch_flat [simp]: "flat (unary_switch env op)"
  by (cases op) (simp_all add: and_then_flat)

lemma visit_expr_flat: "flat (visit_expr env e)"
proof (induction e)
  case (LSLBinaryExpression ty op lhs rhs needed)
  show ?case
  proof (cases lhs)
    case (LSLLValueExpression lty symb ident member)
    then show ?thesis
      using LSLBinaryExpression
      by (cases member) (simp_all add: and_then_flat constructMutatedMember_flat)
  qed (use LSLBinaryExpression in \<open>simp_all add: and_then_flat\<close>)
next
  case (LSLUnaryExpression ty op child needed)
  show ?case
  proof (cases child)
    case (LSLLValueExpression lty symb ident member)
    then show ?thesis
      using LSLUnaryExpression
      by (cases member; cases lty) (simp_all add: and_then_flat Let_def)
  qed (use LSLUnaryExpression in \<open>simp_all add: and_then_flat\<close>)
next
  case (LSLLValueExpression ty symb ident member)
  then show ?case by (cases member) (simp_all add: and_then_flat)
qed (simp_all add: and_then_flat writeChildrenSep_flat list_all_iff Let_def)

lemma visit_expr_text: "visit_expr env e s = append_result s (expr_text env e)"
  unfolding expr_text_def by (rule flatD) (rule visit_expr_flat)

lemma visit_expr_appends [simp]: "appends (visit_expr env e)"
  by (rule flat_appends) (rule visit_expr_flat)

lemma output_of_visit_expr [simp]: "output_of (visit_expr env e) n = expr_text env e"
  unfolding expr_text_def by (rule flat_output) (rule visit_expr_flat)

lemmas run_simps = and_then_def emit_def skip_def abort_def visit_expr_text append_result_def

lemmas appends_simps = and_then_appends(1) indented_appends(1) for_each_appends
  output_of_and_then output_of_indented

lemma visit_stmt_appends [simp]: "appends (visit_stmt env st)"
proof (induction st)
  case (LSLCompoundStatement children)
  then show ?case
    by (simp add: and_then_appends(1) steps_appends(1) list_all_iff del: steps.simps)
next
  case (LSLDeclaration symb initializer)
  show ?case
    by (simp add: and_then_appends(1) flat_appends visit_ptr_flat visit_expr_flat)
next
  case (LSLIfStatement check true_branch false_branch)
  then show ?case
    by (cases false_branch) (simp_all add: and_then_appends(1) indented_appends(1))
next
  case (LSLReturnStatement expr)
  then show ?case
    by (cases expr) (simp_all add: and_then_appends(1))
qed (simp_all add: and_then_appends(1) indented_appends(1) for_each_appends)

lemma visit_stmt_text: "visit_stmt env st s = append_result s (stmt_text env (mTabs s) st)"
  unfolding stmt_text_def by (rule appendsD) simp

lemma output_of_visit_stmt [simp]: "output_of (visit_stmt env st) n = stmt_text env n st"
  by (simp add: stmt_text_def)

lemma write_arguments_flat [simp]: "flat (write_arguments args)"
  unfolding write_arguments_def for_each_def
  by (rule steps_flat) (simp add: list_all_iff)

lemma write_arguments_appends [simp]: "appends (write_arguments args)"
  by (rule flat_appends) simp

lemma output_of_write_arguments: "output_of (write_arguments args) n = Inr (arguments_text args)"
proof -
  have "foldr (\<lambda>arg r. cat (output_of (emit ('', '' @ id_name arg @ '': '' @ PY_TYPE_NAMES (id_itype arg))) n) r)
          args (Inr []) = Inr (arguments_text args)"
    by (induction args) (simp_all add: arguments_text_def)
  then show ?thesis
    by (simp add: write_arguments_def for_each_output)
qed

lemma visit_global_appends [simp]: "appends (visit_global env glob)"
  by (cases glob)
     (simp_all add: appends_simps flat_appends visit_ptr_flat visit_expr_flat)

lemma declare_global_appends [simp]: "appends (declare_global glob)"
  by (cases glob) (simp_all add: appends_simps)

lemma visit_event_handler_appends [simp]: "appends (visit_event_handler env st h)"
  by (simp add: visit_event_handler_def Let_def appends_simps)

lemma visit_states_appends [simp]: "appends (visit_states env sts)"
  by (simp add: visit_states_def appends_simps)

lemma members_appends [simp]: "appends (members env script)"
  by (simp add: members_def appends_simps)

section \<open>The operator switches\<close>

lemma coordinate_offset:
  assumes "(c, k) \<in> set coordinate_offsets"
  shows "member_to_offset env (c # rest) = Inr k"
  using assms by (auto simp add: coordinate_offsets_def member_to_offset_def)

lemma binary_switch_helper:
  "(op, helper) \<in> set non_assignment_operators \<Longrightarrow> binary_switch env op = emit (helper @ ''('')"
  by (auto simp add: non_assignment_operators_def)

lemma binary_switch_default:
  assumes "op \<notin> fst ` set non_assignment_operators"
  shows "binary_switch env op = steps [assert0 env, emit ''<ERROR>'']"
  using assms by (cases op) (auto simp add: non_assignment_operators_def)

lemma non_assignment_not_assign:
  "(op, helper) \<in> set non_assignment_operators \<Longrightarrow> op \<noteq> OpChar CHR ''='' \<and> op \<noteq> OP_MUL_ASSIGN"
  by (auto simp add: non_assignment_operators_def)

lemma unary_switch_helper:
  "(op, helper) \<in> set unary_operators \<Longrightarrow> unary_switch env op = emit (helper @ ''('')"
  by (auto simp add: unary_operators_def)

lemma unary_switch_default:
  assumes "op \<notin> fst ` set unary_operators"
  shows "unary_switch env op = steps [assert0 env, emit ''<ERROR>'']"
  using assms by (cases op) (auto simp add: unary_operators_def)

lemma unary_not_incr_decr:
  "(op, helper) \<in> set unary_operators \<Longrightarrow> (op, h) \<notin> set incr_decr_helpers"
  by (auto simp add: unary_operators_def incr_decr_helpers_def)

lemma incr_decr_cases:
  "(op, helper) \<in> set incr_decr_helpers \<Longrightarrow>
     op = OP_POST_DECR \<or> op = OP_POST_INCR \<or> op = OP_PRE_DECR \<or> op = OP_PRE_INCR"
  by (auto simp add: incr_decr_helpers_def)

lemma not_incr_decr:
  assumes "op \<notin> fst ` set incr_decr_helpers"
  shows "\<not> (op = OP_POST_DECR \<or> op = OP_POST_INCR \<or> op = OP_PRE_DECR \<or> op = OP_PRE_INCR)"
  using assms by (auto simp add: incr_decr_helpers_def)

lemma incr_decr_statement:
  assumes "(op, helper) \<in> set incr_decr_helpers"
  shows "visit_expr env
           (LSLUnaryExpression ty op (LSLLValueExpression lty symb ident None) False) s =
            (case getOneValue lty of
               None \<Rightarrow> Inl Undefined_behaviour
             | Some one \<Rightarrow>
                 (case expr_text env one of
                    Inl e \<Rightarrow> Inl e
                  | Inr one_text \<Rightarrow>
                      Inr (s\<lparr>mStr := mStr s @ target_name symb
                             @ (if decrements op then '' -= '' else '' += '') @ one_text\<rparr>)))"
proof -
  consider "op = OP_PRE_INCR" | "op = OP_PRE_DECR" | "op = OP_POST_INCR" | "op = OP_POST_DECR"
    using assms by (auto simp add: incr_decr_helpers_def)
  then show ?thesis
    by cases
      (simp_all add: run_simps target_name_def decrements_def split: sum.split option.split)
qed

lemma incr_decr_helper_call:
  assumes "(op, helper) \<in> set incr_decr_helpers" and "needed \<or> member \<noteq> None"
  shows "visit_expr env
           (LSLUnaryExpression ty op (LSLLValueExpression lty symb ident member) needed) s =
            (case member of
               None \<Rightarrow>
                 Inr (s\<lparr>mStr := mStr s @ helper @ ''('' @ container symb
                        @ '', '' @ [dquote] @ sym_name symb @ [dquote] @ '')''\<rparr>)
             | Some m \<Rightarrow>
                 (case member_to_offset env (id_name m) of
                    Inl e \<Rightarrow> Inl e
                  | Inr k \<Rightarrow>
                      Inr (s\<lparr>mStr := mStr s @ helper @ ''('' @ container symb
                        @ '', '' @ [dquote] @ sym_name symb @ [dquote]
                        @ '', '' @ dec_int k @ '')''\<rparr>)))"
proof -
  consider "op = OP_PRE_INCR" "helper = ''preincr''" | "op = OP_PRE_DECR" "helper = ''predecr''"
    | "op = OP_POST_INCR" "helper = ''postincr''" | "op = OP_POST_DECR" "helper = ''postdecr''"
    using assms(1) by (auto simp add: incr_decr_helpers_def)
  then show ?thesis
    using assms(2)
    by cases
      (simp_all add: run_simps write_offset_def container_def split: sum.split option.split)
qed

lemma unknown_binary:
  assumes "op \<noteq> OpChar CHR ''=''" and "op \<noteq> OP_MUL_ASSIGN"
    and "op \<notin> fst ` set non_assignment_operators"
  shows "visit_expr env (LSLBinaryExpression ty op lhs rhs needed) s =
           (if NDEBUG env then
              append_result s
                (cat (Inr ''<ERROR>'')
                   (cat (expr_text env rhs) (cat (Inr '', '') (cat (expr_text env lhs) (Inr '')'')))))
            else Inl Assertion_failed)"
  using assms(1,2) binary_switch_default [OF assms(3), of env]
  by (simp add: run_simps assert0_def cat_def split: sum.split)

lemma unknown_unary:
  assumes "op \<notin> fst ` set incr_decr_helpers" and "op \<notin> fst ` set unary_operators"
  shows "visit_expr env (LSLUnaryExpression ty op child needed) s =
           (if NDEBUG env then
              append_result s (cat (Inr ''<ERROR>'') (cat (expr_text env child) (Inr '')'')))
            else Inl Assertion_failed)"
  using not_incr_decr [OF assms(1)] unary_switch_default [OF assms(2), of env]
  by (simp add: run_simps assert0_def cat_def split: sum.split)

lemma unknown_member:
  assumes "\<not> member_known name"
  shows "member_to_offset env name = (if NDEBUG env then Inr 0 else Inl Assertion_failed)"
  using assms by (cases name) (simp_all add: member_known_def member_to_offset_def)

section \<open>Trees within the contract never fail an assertion\<close>

lemma quiet_emit [simp]: "quiet (emit txt)"
  by (simp add: quiet_def)

lemma quiet_skip [simp]: "quiet skip"
  by (simp add: quiet_def)

lemma quiet_undefined [simp]: "quiet (abort Undefined_behaviour)"
  by (simp add: quiet_def)

lemma quiet_and_then: "quiet f \<Longrightarrow> quiet g \<Longrightarrow> quiet (and_then f g)"
  using cat_fault [of "output_of f 0" "output_of g 0" Assertion_failed]
  by (auto simp add: quiet_def and_then_flat output_of_and_then flat_appends)

lemma quiet_writeChildrenSep:
  assumes "list_all quiet fs"
  shows "quiet (writeChildrenSep fs sep)"
  using assms by (induction fs sep rule: writeChildrenSep.induct) (simp_all add: quiet_and_then)

lemma quiet_writeFloat [simp]: "quiet (writeFloat env f)"
  by (simp add: writeFloat_def Let_def quiet_and_then)

lemma member_known_offset: "member_known name \<Longrightarrow> \<exists>k. member_to_offset env name = Inr k"
  by (cases name) (auto simp add: member_known_def member_to_offset_def)

lemma quiet_write_offset: "member_known (id_name m) \<Longrightarrow> quiet (write_offset env m)"
  using member_known_offset [of "id_name m" env] by (auto simp add: write_offset_def)

lemma quiet_constructMutatedMember:
  "member_known (id_name m) \<Longrightarrow> quiet rhs \<Longrightarrow> quiet (constructMutatedMember env symb m rhs)"
  using member_known_offset [of "id_name m" env]
  by (auto simp add: constructMutatedMember_def quiet_and_then)

lemma quiet_one: "getOneValue ty = Some one \<Longrightarrow> quiet (visit_expr env one)"
  by (cases ty) auto

lemma quiet_visit_expr: "operators_known e \<Longrightarrow> quiet (visit_expr env e)"
proof (induction e)
  case (LSLBinaryExpression ty op lhs rhs needed)
  then have l: "quiet (visit_expr env lhs)" and r: "quiet (visit_expr env rhs)"
    by simp_all
  consider (assign) "op = OpChar CHR ''=''" | (mul) "op = OP_MUL_ASSIGN"
    | (other) helper where "(op, helper) \<in> set non_assignment_operators"
    using LSLBinaryExpression.prems by auto
  then show ?case
  proof cases
    case assign
    show ?thesis
    proof (cases lhs)
      case (LSLLValueExpression lty symb ident member)
      then show ?thesis
        using assign r LSLBinaryExpression.prems
        by (cases member)
           (simp_all add: quiet_and_then quiet_constructMutatedMember quiet_write_offset)
    qed (simp_all add: assign)
  next
    case mul
    then show ?thesis
      using l r by (cases "getSymbol lhs") (simp_all add: quiet_and_then)
  next
    case other
    then show ?thesis
      using l r binary_switch_helper [OF other, of env] non_assignment_not_assign [OF other]
      by (simp add: quiet_and_then)
  qed
next
  case (LSLUnaryExpression ty op child needed)
  then have c: "quiet (visit_expr env child)"
    by simp
  consider (step) helper where "(op, helper) \<in> set incr_decr_helpers"
    | (other) helper where "(op, helper) \<in> set unary_operators"
    using LSLUnaryExpression.prems by auto
  then show ?case
  proof cases
    case step
    show ?thesis
    proof (cases child)
      case (LSLLValueExpression lty symb ident member)
      show ?thesis
      proof (cases member)
        case None
        then show ?thesis
          using incr_decr_cases [OF step] LSLLValueExpression quiet_one [of lty _ env]
          by (cases "getOneValue lty") (simp_all add: quiet_and_then Let_def)
      next
        case (Some m)
        then show ?thesis
          using incr_decr_cases [OF step] LSLLValueExpression LSLUnaryExpression.prems
          by (simp add: quiet_and_then Let_def quiet_write_offset)
      qed
    qed (use incr_decr_cases [OF step] in \<open>simp_all add: Let_def\<close>)
  next
    case other
    then show ?thesis
      using c unary_switch_helper [OF other, of env] unary_not_incr_decr [OF other]
      by (auto simp add: quiet_and_then incr_decr_helpers_def)
  qed
next
  case (LSLLValueExpression ty symb ident member)
  then show ?case
    by (cases member) (simp_all add: quiet_and_then quiet_write_offset)
qed (simp_all add: quiet_and_then quiet_writeChildrenSep list_all_iff Let_def)

lemma known_never_asserts:
  assumes "operators_known e"
  shows "visit_expr env e s \<noteq> Inl Assertion_failed"
proof -
  have q: "quiet (visit_expr env e)"
    using assms by (rule quiet_visit_expr)
  then have "expr_text env e \<noteq> Inl Assertion_failed"
    by (simp add: quiet_def)
  then show ?thesis
    by (cases "expr_text env e") (simp_all add: visit_expr_text)
qed

section \<open>Decimal and hexadecimal text read back\<close>

lemma digit_value_dec: "\<forall>d \<in> {0..<10}. digit_value 10 (digit_chars ! d) = Some d"
  by code_simp

lemma digit_value_hex: "\<forall>d \<in> {0..<16}. digit_value 16 (digit_chars ! d) = Some d"
  by code_simp

lemma digit_not_minus: "\<forall>d \<in> {0..<10}. digit_chars ! d \<noteq> CHR ''-''"
  by code_simp

lemma parse_digits_append:
  "parse_digits acc (xs @ ys) = (case parse_digits acc xs of None \<Rightarrow> None | Some a \<Rightarrow> parse_digits a ys)"
  by (induction xs arbitrary: acc) (simp_all split: option.split)

lemma parse_digits_dec_nat: "parse_digits 0 (dec_nat n) = Some n"
proof (induction n rule: dec_nat.induct)
  case (1 n)
  show ?case
  proof (cases "n < 10")
    case True
    then show ?thesis
      using digit_value_dec by (subst dec_nat.simps) simp
  next
    case False
    have "n mod 10 < 10" by simp
    then have d: "digit_value 10 (digit_chars ! (n mod 10)) = Some (n mod 10)"
      using digit_value_dec by simp
    show ?thesis
      using False 1 d by (subst dec_nat.simps) (simp add: parse_digits_append)
  qed
qed

lemma dec_nat_nonempty: "dec_nat n \<noteq> []"
  by (subst dec_nat.simps) simp

lemma hd_dec_nat: "hd (dec_nat n) \<noteq> CHR ''-''"
proof (induction n rule: dec_nat.induct)
  case (1 n)
  show ?case
  proof (cases "n < 10")
    case True
    then show ?thesis
      using digit_not_minus by (subst dec_nat.simps) simp
  next
    case False
    then show ?thesis
      using 1 dec_nat_nonempty [of "n div 10"] by (subst dec_nat.simps) simp
  qed
qed

lemma literal_value_dec_nat: "literal_value (dec_nat n @ ''.0'') = Some (False, n)"
  using dec_nat_nonempty [of n] hd_dec_nat [of n]
  by (cases "dec_nat n") (simp_all add: literal_value_def Let_def parse_digits_dec_nat [symmetric])

lemma literal_value_body:
  "literal_value (CHR ''-'' # dec_nat n @ ''.0'') = Some (True, n)"
  using dec_nat_nonempty [of n]
  by (cases "dec_nat n") (simp_all add: literal_value_def Let_def parse_digits_dec_nat [symmetric])

lemma literal_value_dec_int: "literal_value (dec_int i @ ''.0'') = Some (i < 0, nat \<bar>i\<bar>)"
  by (simp add: dec_int_def literal_value_dec_nat literal_value_body)

lemma minus_zero_literal: "literal_value ''-0.0'' = Some (True, 0)"
  by code_simp

lemma dec_int_digit: "0 \<le> k \<Longrightarrow> k < 10 \<Longrightarrow> dec_int k = [digit_chars ! nat k]"
  by (simp add: dec_int_def dec_nat.simps)

lemma parse_hex_byte: "parse_hex_bytes (hex_byte b @ cs) =
    (case parse_hex_bytes cs of Some bs \<Rightarrow> Some (b # bs) | None \<Rightarrow> None)"
proof -
  have "unat b div 16 < 16"
    using unsigned_less [of b, where ?'a = nat] by simp
  then have h: "digit_value 16 (digit_chars ! (unat b div 16)) = Some (unat b div 16)"
    using digit_value_hex by simp
  have "unat b mod 16 < 16" by simp
  then have l: "digit_value 16 (digit_chars ! (unat b mod 16)) = Some (unat b mod 16)"
    using digit_value_hex by simp
  show ?thesis
    by (simp add: hex_byte_def h l split: option.split)
qed

lemma parse_hex_bytes_concat: "parse_hex_bytes (concat (map hex_byte bs)) = Some bs"
  by (induction bs) (simp_all add: parse_hex_byte)

lemma reassemble_bytes:
  fixes f :: "32 word"
  shows "ucast (ucast f :: 8 word) OR push_bit 8 (ucast (ucast (drop_bit 8 f) :: 8 word))
       OR push_bit 16 (ucast (ucast (drop_bit 16 f) :: 8 word))
       OR push_bit 24 (ucast (ucast (drop_bit 24 f) :: 8 word)) = f" (is "?l = f")
proof (rule bit_word_eqI)
  fix n
  assume "n < LENGTH(32)"
  then consider "n < 8" | "8 \<le> n" "n < 16" | "16 \<le> n" "n < 24" | "24 \<le> n" "n < 32"
    by fastforce
  then show "bit ?l n = bit f n"
    by cases (auto simp add: bit_simps)
qed

lemma bin2float_float_bytes:
  "bin2float env (concat (map hex_byte (float_bytes env f))) = Some f"
  by (simp add: bin2float_def parse_hex_bytes_concat float_bytes_def Let_def reassemble_bytes)

lemma length_hex: "length (concat (map hex_byte (float_bytes env f))) = 8"
  by (simp add: float_bytes_def hex_byte_def Let_def)

section \<open>Floats that fit are written exactly\<close>

text \<open>
  An integral float whose value fits \<open>int64_t\<close> is written as a literal of its sign and
  magnitude; a float that is not integral is written as a \<open>bin2float\<close> call whose eight
  hexadecimal digits decode to its bit pattern.
\<close>

lemma magnitude_nonneg: "0 \<le> magnitude f"
  by (simp add: magnitude_def Let_def)

lemma trunc_zero_of_int: "trunc_zero (of_int k) = k"
  by (simp add: trunc_zero_def)

lemma nearbyint_of_int: "nearbyint (of_int k) = k"
  by (simp add: nearbyint_def)

lemma sint_int64: "- (2 ^ 63) \<le> k \<Longrightarrow> k < 2 ^ 63 \<Longrightarrow> sint (word_of_int k :: 64 word) = k"
  by (simp add: signed_of_int signed_take_bit_int_eq_self)

lemma run_writeFloat_integral:
  assumes "int_like f" and "\<not> (equals_zero f \<and> signbit f)"
  shows "writeFloat env f s = Inr (s\<lparr>mStr := mStr s @ dec_int (sint (float_to_int64 env f)) @ ''.0''\<rparr>)"
  using assms by (auto simp add: writeFloat_def and_then_def emit_def skip_def)

lemma writeFloat_integral_in_range:
  assumes "int_like f" and "fits_int64 f"
  shows "\<exists>txt n. writeFloat env f s = Inr (s\<lparr>mStr := mStr s @ txt\<rparr>) \<and>
                 literal_value txt = Some (signbit f, n) \<and> of_nat n = magnitude f"
proof -
  define k where "k = nearbyint (float_value f)"
  have fin: "\<not> is_nan f" "\<not> is_inf f" and lo: "- (2 ^ 63) \<le> trunc_zero (float_value f)"
    and hi: "trunc_zero (float_value f) < 2 ^ 63"
    using assms(2) by (simp_all add: fits_int64_def)
  have v: "float_value f = of_int k"
    using assms(1) fin by (simp add: int_like_def k_def)
  have t: "trunc_zero (float_value f) = k"
    by (simp add: v trunc_zero_of_int)
  have conv: "sint (float_to_int64 env f) = k"
    using assms(2) lo hi t by (simp add: float_to_int64_def sint_int64)
  have mag: "magnitude f = of_nat (nat \<bar>k\<bar>)"
  proof -
    have "\<bar>float_value f\<bar> = magnitude f"
      using magnitude_nonneg [of f] by (simp add: float_value_def)
    then have "magnitude f = \<bar>of_int k\<bar>"
      by (simp add: v)
    then show ?thesis
      by simp
  qed
  show ?thesis
  proof (cases "equals_zero f \<and> signbit f")
    case True
    then have z: "float_value f = 0"
      by (simp add: equals_zero_def)
    then have "magnitude f = 0"
      using True by (simp add: float_value_def)
    moreover have "writeFloat env f s = Inr (s\<lparr>mStr := mStr s @ ''-0.0''\<rparr>)"
      using True assms(1) by (simp add: writeFloat_def emit_def)
    ultimately show ?thesis
      using True minus_zero_literal by (intro exI [of _ "''-0.0''"] exI [of _ 0]) simp
  next
    case False
    have sign: "(k < 0) = signbit f"
    proof (cases "signbit f")
      case True
      then have "float_value f \<le> 0"
        using magnitude_nonneg [of f] by (simp add: float_value_def)
      moreover have "float_value f \<noteq> 0"
        using False True fin by (simp add: equals_zero_def)
      ultimately have "(of_int k :: rat) < 0"
        by (simp add: v)
      then show ?thesis
        using True by simp
    next
      case False
      then have "0 \<le> float_value f"
        using magnitude_nonneg [of f] by (simp add: float_value_def)
      then have "(0 :: rat) \<le> of_int k"
        by (simp add: v)
      then show ?thesis
        using False by simp
    qed
    show ?thesis
      using run_writeFloat_integral [OF assms(1) False, of env s] sign mag
      by (intro exI [of _ "dec_int k @ ''.0''"] exI [of _ "nat \<bar>k\<bar>"])
         (simp add: conv literal_value_dec_int)
  qed
qed

lemma writeFloat_not_integral:
  assumes "\<not> int_like f"
  shows "writeFloat env f s =
           Inr (s\<lparr>mStr := mStr s @ ''bin2float('' @ [squote] @ to_string env f @ [squote] @ '', ''
                   @ [squote] @ concat (map hex_byte (float_bytes env f)) @ [squote] @ '')''\<rparr>)"
  using assms by (simp add: writeFloat_def Let_def and_then_def emit_def skip_def)

lemma writeFloat_round_trip:
  assumes "int_like f \<longrightarrow> fits_int64 f"
  shows "if int_like f then
           (\<exists>txt n. writeFloat env f s = Inr (s\<lparr>mStr := mStr s @ txt\<rparr>) \<and>
                    literal_value txt = Some (signbit f, n) \<and> of_nat n = magnitude f)
         else
           (\<exists>hex. writeFloat env f s =
                    Inr (s\<lparr>mStr := mStr s @ ''bin2float('' @ [squote] @ to_string env f @ [squote]
                           @ '', '' @ [squote] @ hex @ [squote] @ '')''\<rparr>) \<and>
                  length hex = 8 \<and> bin2float env hex = Some f)"
proof (cases "int_like f")
  case True
  then show ?thesis
    using assms writeFloat_integral_in_range [of f env s] by simp
next
  case False
  then show ?thesis
    using writeFloat_not_integral [of f env s] bin2float_float_bytes [of env f] length_hex [of env f]
    by auto
qed

section \<open>Concrete floats and expressions\<close>

lemma big_parts: "biased_exponent 0x5F000000 = 190" "fraction 0x5F000000 = 0" "\<not> signbit 0x5F000000"
  by (simp_all add: biased_exponent_def fraction_def signbit_def)

lemma big_value: "float_value 0x5F000000 = 2 ^ 63"
  by (simp add: float_value_def magnitude_def big_parts)

lemma big_int_like: "int_like 0x5F000000"
  using nearbyint_of_int [of "2 ^ 63"]
  by (simp add: int_like_def is_nan_def is_inf_def big_parts big_value)

lemma big_not_fits: "\<not> fits_int64 0x5F000000"
  by (simp add: fits_int64_def big_value trunc_zero_def)

lemma five_parts:
  "biased_exponent 0x40A00000 = 129" "fraction 0x40A00000 = 2097152" "\<not> signbit 0x40A00000"
  by (simp_all add: biased_exponent_def fraction_def signbit_def)

lemma five_value: "float_value 0x40A00000 = 5"
  by (simp add: float_value_def magnitude_def five_parts)

lemma five_int_like: "int_like 0x40A00000"
  using nearbyint_of_int [of 5]
  by (simp add: int_like_def is_nan_def is_inf_def five_parts five_value)

lemma five_fits: "fits_int64 0x40A00000"
  by (simp add: fits_int64_def five_value trunc_zero_def is_nan_def is_inf_def five_parts)

lemma five_text: "expr_text env (LSLFloatConstant 0x40A00000) = Inr ''5.0''"
  by (simp add: expr_text_def output_of_def writeFloat_def five_int_like equals_zero_def
      five_value float_to_int64_def five_fits trunc_zero_def and_then_def emit_def skip_def
      dec_int_digit digit_chars_def)

lemma one_parts:
  "biased_exponent 0x3F800000 = 127" "fraction 0x3F800000 = 0" "\<not> signbit 0x3F800000"
  by (simp_all add: biased_exponent_def fraction_def signbit_def)

lemma one_value: "float_value 0x3F800000 = 1"
  by (simp add: float_value_def magnitude_def one_parts)

lemma one_float_text: "expr_text env (LSLFloatConstant 0x3F800000) = Inr ''1.0''"
proof -
  have i: "int_like 0x3F800000"
    using nearbyint_of_int [of 1]
    by (simp add: int_like_def is_nan_def is_inf_def one_parts one_value)
  have f: "fits_int64 0x3F800000"
    by (simp add: fits_int64_def one_value trunc_zero_def is_nan_def is_inf_def one_parts)
  show ?thesis
    by (simp add: expr_text_def output_of_def writeFloat_def i equals_zero_def one_value
        float_to_int64_def f trunc_zero_def and_then_def emit_def skip_def dec_int_digit
        digit_chars_def)
qed

lemma integer_text: "expr_text env (LSLIntegerConstant v) = Inr (dec_int (sint v))"
  by (simp add: expr_text_def output_of_def emit_def)

lemma example_i_text: "expr_text env example_i = Inr ''i''"
  by (simp add: expr_text_def output_of_def example_i_def example_local_def and_then_def
      emit_def skip_def)

lemma zero_parts: "biased_exponent 0 = 0" "fraction 0 = 0" "\<not> signbit 0"
  by (simp_all add: biased_exponent_def fraction_def signbit_def)

lemma zero_text: "expr_text env (LSLFloatConstant 0) = Inr ''0.0''"
proof -
  have v: "float_value 0 = 0"
    by (simp add: float_value_def magnitude_def zero_parts)
  have i: "int_like 0"
    using nearbyint_of_int [of 0] by (simp add: int_like_def is_nan_def is_inf_def zero_parts v)
  have f: "fits_int64 0"
    by (simp add: fits_int64_def v trunc_zero_def is_nan_def is_inf_def zero_parts)
  show ?thesis
    by (simp add: expr_text_def output_of_def writeFloat_def i zero_parts float_to_int64_def f v
        trunc_zero_def and_then_def emit_def skip_def dec_int_digit digit_chars_def)
qed

lemma default_value_texts:
  "map_option (expr_text env) (getDefaultValue LST_INTEGER) = Some (Inr ''0'')"
  "map_option (expr_text env) (getDefaultValue LST_FLOATINGPOINT) = Some (Inr ''0.0'')"
  "map_option (expr_text env) (getDefaultValue LST_STRING)
     = Some (Inr ([dquote] @ escape_string env [] @ [dquote]))"
  "map_option (expr_text env) (getDefaultValue LST_KEY)
     = Some (Inr (''Key('' @ [dquote] @ escape_string env [] @ [dquote] @ '')''))"
  "map_option (expr_text env) (getDefaultValue LST_VECTOR) = Some (Inr ''Vector((0.0, 0.0, 0.0))'')"
  "map_option (expr_text env) (getDefaultValue LST_QUATERNION)
     = Some (Inr ''Quaternion((0.0, 0.0, 0.0, 0.0))'')"
  "map_option (expr_text env) (getDefaultValue LST_LIST) = Some (Inr ''[]'')"
proof -
  have z: "output_of (writeFloat env 0) n = Inr ''0.0''" for n
    using zero_text [of env] by (simp add: expr_text_def flat_output [of "writeFloat env 0" n])
  show "map_option (expr_text env) (getDefaultValue LST_INTEGER) = Some (Inr ''0'')"
    by (simp add: integer_text dec_int_digit digit_chars_def)
  show "map_option (expr_text env) (getDefaultValue LST_FLOATINGPOINT) = Some (Inr ''0.0'')"
    by (simp add: zero_text)
  show "map_option (expr_text env) (getDefaultValue LST_STRING)
     = Some (Inr ([dquote] @ escape_string env [] @ [dquote]))"
    by (simp add: expr_text_def output_of_def and_then_def emit_def skip_def)
  show "map_option (expr_text env) (getDefaultValue LST_KEY)
     = Some (Inr (''Key('' @ [dquote] @ escape_string env [] @ [dquote] @ '')''))"
    by (simp add: expr_text_def output_of_def and_then_def emit_def skip_def)
  show "map_option (expr_text env) (getDefaultValue LST_VECTOR) = Some (Inr ''Vector((0.0, 0.0, 0.0))'')"
    by (simp add: expr_text_def appends_simps flat_appends z)
  show "map_option (expr_text env) (getDefaultValue LST_QUATERNION)
     = Some (Inr ''Quaternion((0.0, 0.0, 0.0, 0.0))'')"
    by (simp add: expr_text_def appends_simps flat_appends z)
  show "map_option (expr_text env) (getDefaultValue LST_LIST) = Some (Inr ''[]'')"
    by (simp add: expr_text_def output_of_def and_then_def emit_def skip_def)
qed

lemma beyond_int64_on_x86:
  "writeFloat example_env 0x5F000000 \<lparr>mStr = [], mTabs = 0\<rparr> =
     Inr \<lparr>mStr = ''-9223372036854775808.0'', mTabs = 0\<rparr>"
proof -
  have nz: "\<not> (equals_zero 0x5F000000 \<and> signbit 0x5F000000)"
    by (simp add: big_parts)
  have d: "dec_int (- 9223372036854775808) = ''-9223372036854775808''"
    by (simp add: dec_int_def dec_nat.simps digit_chars_def)
  show ?thesis
    using run_writeFloat_integral [OF big_int_like nz, of example_env "\<lparr>mStr = [], mTabs = 0\<rparr>"]
    by (simp add: float_to_int64_def big_not_fits example_env_def d)
qed

section \<open>Loops and scripts\<close>

lemma clause_lines_output:
  assumes "map (expr_text env) es = map Inr txts"
  shows "output_of (for_each es (\<lambda>e. steps [doTabs, visit_expr env e, emit ''\<newline>''])) n =
           Inr (clause_lines n txts)"
proof -
  have "foldr (\<lambda>e r. cat (output_of (steps [doTabs, visit_expr env e, emit ''\<newline>'']) n) r) es (Inr [])
          = Inr (clause_lines n txts)"
    using assms
  proof (induction es arbitrary: txts)
    case Nil
    then show ?case by (simp add: clause_lines_def)
  next
    case (Cons e es)
    then obtain t ts where txts: "txts = t # ts" and t: "expr_text env e = Inr t"
      and ts: "map (expr_text env) es = map Inr ts"
      by (cases txts) auto
    show ?case
      using Cons.IH [OF ts] t
      by (simp add: appends_simps txts clause_lines_def)
  qed
  then show ?thesis
    by (simp add: for_each_output appends_simps)
qed

lemma declarations_output:
  "output_of (for_each gs (\<lambda>glob. if getNodeType glob \<noteq> NODE_GLOBAL_VARIABLE then skip
                                   else declare_global glob)) n =
     Inr (concat (map (declaration_line n) (filter (\<lambda>g. getNodeType g = NODE_GLOBAL_VARIABLE) gs)))"
proof -
  have "foldr (\<lambda>glob r. cat (output_of (if getNodeType glob \<noteq> NODE_GLOBAL_VARIABLE then skip
                                   else declare_global glob) n) r) gs (Inr []) =
     Inr (concat (map (declaration_line n) (filter (\<lambda>g. getNodeType g = NODE_GLOBAL_VARIABLE) gs)))"
  proof (induction gs)
    case Nil
    then show ?case by simp
  next
    case (Cons g gs)
    then show ?case
      by (cases g) (simp_all add: appends_simps)
  qed
  then show ?thesis
    by (simp add: for_each_output)
qed

lemma assignments_output:
  assumes "map initial_value (filter (\<lambda>g. getNodeType g = NODE_GLOBAL_VARIABLE) gs) = map Some values"
    and "map (expr_text env) values = map Inr texts"
  shows "output_of (for_each gs (\<lambda>glob. if getNodeType glob \<noteq> NODE_GLOBAL_VARIABLE then skip
                                   else visit_global env glob)) n =
     Inr (concat (map2 (assignment_line n) (filter (\<lambda>g. getNodeType g = NODE_GLOBAL_VARIABLE) gs) texts))"
proof -
  have "foldr (\<lambda>glob r. cat (output_of (if getNodeType glob \<noteq> NODE_GLOBAL_VARIABLE then skip
                                   else visit_global env glob) n) r) gs (Inr []) =
     Inr (concat (map2 (assignment_line n) (filter (\<lambda>g. getNodeType g = NODE_GLOBAL_VARIABLE) gs) texts))"
    using assms
  proof (induction gs arbitrary: "values" texts)
    case Nil
    then show ?case by simp
  next
    case (Cons g gs)
    show ?case
    proof (cases g)
      case (LSLGlobalVariable ident symb initializer)
      then obtain v vs where vs: "values = v # vs" and v: "initial_value g = Some v"
        and rest: "map initial_value (filter (\<lambda>g. getNodeType g = NODE_GLOBAL_VARIABLE) gs) = map Some vs"
        using Cons.prems(1) by (cases "values") auto
      then obtain t ts where ts: "texts = t # ts" and t: "expr_text env v = Inr t"
        and rest': "map (expr_text env) vs = map Inr ts"
        using Cons.prems(2) by (cases texts) auto
      show ?thesis
        using Cons.IH [OF rest rest'] v t LSLGlobalVariable
        by (simp add: appends_simps ts visit_ptr_def flat_appends visit_expr_flat)
    next
      case (LSLGlobalFunction ident args body)
      then show ?thesis
        using Cons by simp
    qed
  qed
  then show ?thesis
    by (simp add: for_each_output)
qed

lemma five_written: "writeFloat env 0x40A00000 s = Inr (s\<lparr>mStr := mStr s @ ''5.0''\<rparr>)"
  by (simp add: writeFloat_def five_int_like equals_zero_def
      five_value float_to_int64_def five_fits trunc_zero_def and_then_def emit_def skip_def
      dec_int_digit digit_chars_def)

lemma example_script_code:
  "visit_script example_env example_script \<lparr>mStr = [], mTabs = 0\<rparr>
     = Inr \<lparr>mStr = example_code, mTabs = 0\<rparr>"
  by (simp add: visit_script_def example_script_def example_code_def for_each_def visit_states_def
      visit_ptr_def and_then_def emit_def skip_def doTabs_def indented_def ScopedTabSetter_def
      five_written dec_int_digit digit_chars_def eval_nat_numeral)

section \<open>The driver\<close>

lemma example_main:
  "main example_env (example_world\<lparr>write_succeeds := b\<rparr>) example_argv =
     Inr \<lparr>returned = 0, stderr = [], stdout = [], generated = True,
          written = (if b then Some example_code else None)\<rparr>"
  by (simp add: main_def getErrors_def example_world_def example_argv_def example_script_code
      eval_nat_numeral)

section \<open>The claims\<close>

text \<open>
  C1. An integral float is to be written as a decimal integer with a trailing \<open>.0\<close>
  that denotes exactly the float. At the float \<open>2^63\<close> (bit pattern \<open>0x5F000000\<close>) the
  integrality test holds and the conversion to \<open>int64_t\<close> is out of range: on x86-64
  the text written is \<open>-9223372036854775808.0\<close>, and whatever 64-bit value a host yields
  for the conversion, the text written does not denote \<open>2^63\<close>.
\<close>

theorem writeFloat_beyond_int64:
  "int_like 0x5F000000 \<and> float_value 0x5F000000 = 2 ^ 63 \<and> \<not> signbit 0x5F000000 \<and>
   writeFloat example_env 0x5F000000 \<lparr>mStr = [], mTabs = 0\<rparr> =
     Inr \<lparr>mStr = ''-9223372036854775808.0'', mTabs = 0\<rparr> \<and>
   (\<forall>env s. \<exists>w :: 64 word.
      writeFloat env 0x5F000000 s = Inr (s\<lparr>mStr := mStr s @ dec_int (sint w) @ ''.0''\<rparr>) \<and>
      literal_value (dec_int (sint w) @ ''.0'') \<noteq> Some (False, 2 ^ 63))"
proof -
  have "\<exists>w :: 64 word.
      writeFloat env 0x5F000000 s = Inr (s\<lparr>mStr := mStr s @ dec_int (sint w) @ ''.0''\<rparr>) \<and>
      literal_value (dec_int (sint w) @ ''.0'') \<noteq> Some (False, 2 ^ 63)" for env s
  proof -
    define w where "w = int64_out_of_range env 0x5F000000"
    have nz: "\<not> (equals_zero 0x5F000000 \<and> signbit 0x5F000000)"
      by (simp add: big_parts)
    have run: "writeFloat env 0x5F000000 s = Inr (s\<lparr>mStr := mStr s @ dec_int (sint w) @ ''.0''\<rparr>)"
      using run_writeFloat_integral [OF big_int_like nz, of env s]
      by (simp add: float_to_int64_def big_not_fits w_def)
    have "sint w < 2 ^ 63"
      using sint_lt [of w] by simp
    then have "literal_value (dec_int (sint w) @ ''.0'') \<noteq> Some (False, 2 ^ 63)"
      by (auto simp add: literal_value_dec_int)
    then show ?thesis
      using run by blast
  qed
  then show ?thesis
    using big_int_like big_value big_parts beyond_int64_on_x86 by blast
qed

text \<open>
  C2. For every operator of the closed set of non-assignment binary operators, the
  visit writes the operator's helper, an opening parenthesis, the text of the right-hand
  operand, a comma, the text of the left-hand operand, and a closing parenthesis; a
  fault of the right-hand operand comes first.
\<close>

theorem binary_right_operand_first:
  assumes "(op, helper) \<in> set non_assignment_operators"
  shows "visit_expr env (LSLBinaryExpression ty op lhs rhs needed) s =
           (case expr_text env rhs of
              Inl e \<Rightarrow> Inl e
            | Inr R \<Rightarrow>
                (case expr_text env lhs of
                   Inl e \<Rightarrow> Inl e
                 | Inr L \<Rightarrow> Inr (s\<lparr>mStr := mStr s @ helper @ ''('' @ R @ '', '' @ L @ '')''\<rparr>)))"
  using binary_switch_helper [OF assms, of env] non_assignment_not_assign [OF assms]
  by (simp add: run_simps split: sum.split)

theorem binary_right_operand_first_witness:
  "(OP_LESS, ''rless'') \<in> set non_assignment_operators \<and>
   visit_expr example_env
     (LSLBinaryExpression LST_INTEGER OP_LESS example_i (LSLIntegerConstant 10) True)
     \<lparr>mStr = ''if not '', mTabs = 0\<rparr> = Inr \<lparr>mStr = ''if not rless(10, i)'', mTabs = 0\<rparr>"
proof -
  have h: "(OP_LESS, ''rless'') \<in> set non_assignment_operators"
    by (simp add: non_assignment_operators_def)
  have r: "expr_text example_env (LSLIntegerConstant 10) = Inr ''10''"
    by (simp add: integer_text dec_int_def dec_nat.simps digit_chars_def)
  show ?thesis
    using h binary_right_operand_first [OF h, of example_env LST_INTEGER example_i
        "LSLIntegerConstant 10" True "\<lparr>mStr = ''if not '', mTabs = 0\<rparr>"]
    by (simp add: r example_i_text)
qed

text \<open>
  C3. A plain assignment to the coordinate member \<open>x\<close>, \<open>y\<close>, \<open>z\<close> or \<open>s\<close> rebinds the
  whole variable or attribute to the result of \<open>replace_coord_axis\<close> on it, the offset
  0, 1, 2 or 3 of that member, and the right-hand side. When the value is used, the
  rebinding goes through \<open>assign\<close> for a global and through \<open>:=\<close> for a local, and the
  new composite is indexed at the same offset.
\<close>

theorem member_assignment_rebinds_composite:
  assumes "(c, k) \<in> set coordinate_offsets" and "id_name member = c # rest"
  shows "visit_expr env
           (LSLBinaryExpression ty (OpChar CHR ''='')
              (LSLLValueExpression lty symb ident (Some member)) rhs needed) s =
         (case expr_text env rhs of
            Inl e \<Rightarrow> Inl e
          | Inr R \<Rightarrow>
              Inr (s\<lparr>mStr := mStr s @
                (if \<not> needed then
                   target_name symb @ '' = '' @ replaced_composite symb k R
                 else if sym_sub_type symb = SYM_GLOBAL then
                   ''assign(self.__dict__, '' @ [dquote] @ sym_name symb @ [dquote] @ '', ''
                     @ replaced_composite symb k R @ '')'' @ ''['' @ dec_int k @ '']''
                 else
                   ''('' @ sym_name symb @ '' := '' @ replaced_composite symb k R @ '')''
                     @ ''['' @ dec_int k @ '']'')\<rparr>))"
proof -
  have off: "member_to_offset env (id_name member) = Inr k"
    using coordinate_offset [OF assms(1), of env rest] assms(2) by simp
  show ?thesis
  proof (cases "expr_text env rhs")
    case (Inl e)
    then show ?thesis
      using off
      by (cases needed; cases "sym_sub_type symb = SYM_GLOBAL")
         (simp_all add: run_simps constructMutatedMember_def)
  next
    case (Inr R)
    then show ?thesis
      using off
      by (cases needed; cases "sym_sub_type symb = SYM_GLOBAL")
         (simp_all add: run_simps constructMutatedMember_def write_offset_def target_name_def
            replaced_composite_def)
  qed
qed

theorem member_assignment_rebinds_composite_witness:
  "(CHR ''z'', 2) \<in> set coordinate_offsets \<and>
   visit_expr example_env
     (LSLBinaryExpression LST_FLOATINGPOINT (OpChar CHR ''='') example_v_z
        (LSLFloatConstant 0x40A00000) False)
     \<lparr>mStr = [], mTabs = 0\<rparr> =
   Inr \<lparr>mStr = ''self.v = replace_coord_axis(self.v, 2, 5.0)'', mTabs = 0\<rparr> \<and>
   visit_expr example_env
     (LSLBinaryExpression LST_FLOATINGPOINT (OpChar CHR ''='') example_v_z
        (LSLFloatConstant 0x40A00000) True)
     \<lparr>mStr = [], mTabs = 0\<rparr> =
   Inr \<lparr>mStr = ''assign(self.__dict__, '' @ [dquote] @ ''v'' @ [dquote]
               @ '', replace_coord_axis(self.v, 2, 5.0))[2]'',
        mTabs = 0\<rparr>"
proof -
  have h: "(CHR ''z'', 2) \<in> set coordinate_offsets"
    by (simp add: coordinate_offsets_def)
  have n: "id_name \<lparr>id_name = ''z'', id_itype = LST_FLOATINGPOINT\<rparr> = CHR ''z'' # []"
    by simp
  show ?thesis
    unfolding example_v_z_def member_assignment_rebinds_composite [OF h n]
    using h
    by (simp add: five_text target_name_def replaced_composite_def example_global_def
        dec_int_digit digit_chars_def)
qed

text \<open>
  C4. The class body starts with one type declaration line per global variable, in source
  order and whether or not the variable has an initializer; the constructor then assigns
  the global variables in the same order, each one its declared initializer or, without
  one, the default value of its type.
\<close>

theorem globals_declared_then_assigned:
  assumes "map initial_value (global_variables script) = map Some values"
    and "map (expr_text env) values = map Inr texts"
    and "output_of (members env script) (mTabs s + 1) = Inr rest"
  shows "visit_script env script s =
           Inr (s\<lparr>mStr := mStr s
                  @ ''from lummao import *\<newline>\<newline>\<newline>''
                  @ ''class Script(BaseLSLScript):\<newline>''
                  @ concat (map (declaration_line (mTabs s + 1)) (global_variables script))
                  @ ''\<newline>''
                  @ tabs (mTabs s + 1) @ ''def __init__(self):\<newline>''
                  @ tabs (mTabs s + 2) @ ''super().__init__()\<newline>''
                  @ concat (map2 (assignment_line (mTabs s + 2)) (global_variables script) texts)
                  @ ''\<newline>''
                  @ rest\<rparr>)"
proof -
  have m: "visit_script env script =
     steps [emit ''from lummao import *\<newline>\<newline>\<newline>'',
            emit ''class Script(BaseLSLScript):\<newline>'',
            indented (steps
              [for_each (getGlobals script)
                 (\<lambda>glob. if getNodeType glob \<noteq> NODE_GLOBAL_VARIABLE then skip
                          else declare_global glob),
               emit ''\<newline>'',
               doTabs, emit ''def __init__(self):\<newline>'',
               indented (steps
                 [doTabs, emit ''super().__init__()\<newline>'',
                  for_each (getGlobals script)
                    (\<lambda>glob. if getNodeType glob \<noteq> NODE_GLOBAL_VARIABLE then skip
                             else visit_global env glob),
                  emit ''\<newline>'']),
               members env script])]"
    by (simp add: visit_script_def members_def and_then_assoc and_then_skip)
  have a: "appends (visit_script env script)"
    unfolding m by (simp add: appends_simps)
  have "output_of (visit_script env script) (mTabs s) =
          Inr (''from lummao import *\<newline>\<newline>\<newline>''
                  @ ''class Script(BaseLSLScript):\<newline>''
                  @ concat (map (declaration_line (mTabs s + 1)) (global_variables script))
                  @ ''\<newline>''
                  @ tabs (mTabs s + 1) @ ''def __init__(self):\<newline>''
                  @ tabs (mTabs s + 2) @ ''super().__init__()\<newline>''
                  @ concat (map2 (assignment_line (mTabs s + 2)) (global_variables script) texts)
                  @ ''\<newline>''
                  @ rest)"
    unfolding m
    using assms(3) assignments_output [OF assms(1) [unfolded global_variables_def] assms(2)]
    by (simp add: appends_simps declarations_output global_variables_def add.commute [of 2 "mTabs s"])
  then show ?thesis
    using appendsD [OF a, of s] by simp
qed

theorem globals_declared_then_assigned_witness:
  "map initial_value (global_variables example_script)
     = map Some [LSLIntegerConstant 0, LSLFloatConstant 0x40A00000] \<and>
   map (expr_text example_env) [LSLIntegerConstant 0, LSLFloatConstant 0x40A00000]
     = map Inr [''0'', ''5.0''] \<and>
   output_of (members example_env example_script) (mTabs \<lparr>mStr = [], mTabs = 0\<rparr> + 1) = Inr [] \<and>
   visit_script example_env example_script \<lparr>mStr = [], mTabs = 0\<rparr>
     = Inr \<lparr>mStr = example_code, mTabs = 0\<rparr>"
proof -
  have v: "map initial_value (global_variables example_script)
     = map Some [LSLIntegerConstant 0, LSLFloatConstant 0x40A00000]"
    by (simp add: global_variables_def example_script_def)
  have t: "map (expr_text example_env) [LSLIntegerConstant 0, LSLFloatConstant 0x40A00000]
     = map Inr [''0'', ''5.0'']"
    by (simp add: integer_text five_text dec_int_digit digit_chars_def)
  have r: "output_of (members example_env example_script) (mTabs \<lparr>mStr = [], mTabs = 0\<rparr> + 1) = Inr []"
    by (simp add: output_of_def members_def example_script_def for_each_def visit_states_def
        and_then_def skip_def)
  show ?thesis
    unfolding globals_declared_then_assigned [OF v t r]
    using v t r
    by (simp add: global_variables_def example_script_def example_code_def tabs_def
        eval_nat_numeral)
qed

text \<open>
  C5. A counted loop is written as: one statement line per init clause, in order;
  \<open>while True:\<close>; one level deeper the check \<open>if not C:\<close> with \<open>break\<close> below it, the
  body, and one statement line per increment clause, in order.
\<close>

theorem for_loop_translation:
  assumes "map (expr_text env) init_exprs = map Inr I"
    and "expr_text env check_expr = Inr C"
    and "stmt_text env (mTabs s + 1) body = Inr B"
    and "map (expr_text env) incr_exprs = map Inr K"
  shows "visit_stmt env (LSLForStatement init_exprs check_expr body incr_exprs) s =
           Inr (s\<lparr>mStr := mStr s
                  @ clause_lines (mTabs s) I
                  @ tabs (mTabs s) @ ''while True:\<newline>''
                  @ tabs (mTabs s + 1) @ ''if not '' @ C @ '':\<newline>''
                  @ tabs (mTabs s + 2) @ ''break\<newline>''
                  @ B
                  @ clause_lines (mTabs s + 1) K\<rparr>)"
proof -
  have "stmt_text env (mTabs s) (LSLForStatement init_exprs check_expr body incr_exprs) =
          Inr (clause_lines (mTabs s) I
                  @ tabs (mTabs s) @ ''while True:\<newline>''
                  @ tabs (mTabs s + 1) @ ''if not '' @ C @ '':\<newline>''
                  @ tabs (mTabs s + 2) @ ''break\<newline>''
                  @ B
                  @ clause_lines (mTabs s + 1) K)"
    unfolding stmt_text_def
    using assms(2,3)
    by (simp add: appends_simps clause_lines_output [OF assms(1), simplified]
        clause_lines_output [OF assms(4), simplified] add.commute [of 2 "mTabs s"])
  then show ?thesis
    unfolding visit_stmt_text by simp
qed

theorem for_loop_translation_witness:
  "map (expr_text example_env)
     [LSLBinaryExpression LST_INTEGER (OpChar CHR ''='') example_i (LSLIntegerConstant 0) False]
     = map Inr [''i = 0''] \<and>
   expr_text example_env
     (LSLBinaryExpression LST_INTEGER OP_LESS example_i (LSLIntegerConstant 3) True)
     = Inr ''rless(3, i)'' \<and>
   stmt_text example_env (mTabs \<lparr>mStr = [], mTabs = 0\<rparr> + 1) (LSLCompoundStatement [])
     = Inr ''    pass\<newline>'' \<and>
   map (expr_text example_env) [LSLUnaryExpression LST_INTEGER OP_PRE_INCR example_i False]
     = map Inr [''i += 1''] \<and>
   visit_stmt example_env
     (LSLForStatement
        [LSLBinaryExpression LST_INTEGER (OpChar CHR ''='') example_i (LSLIntegerConstant 0) False]
        (LSLBinaryExpression LST_INTEGER OP_LESS example_i (LSLIntegerConstant 3) True)
        (LSLCompoundStatement [])
        [LSLUnaryExpression LST_INTEGER OP_PRE_INCR example_i False])
     \<lparr>mStr = [], mTabs = 0\<rparr> =
   Inr \<lparr>mStr = ''i = 0\<newline>while True:\<newline>    if not rless(3, i):\<newline>        break\<newline>    pass\<newline>    i += 1\<newline>'',
        mTabs = 0\<rparr>"
proof -
  have digits: "dec_int 0 = ''0''" "dec_int 1 = ''1''" "dec_int 3 = ''3''"
    by (simp_all add: dec_int_digit digit_chars_def)
  have i: "map (expr_text example_env)
     [LSLBinaryExpression LST_INTEGER (OpChar CHR ''='') example_i (LSLIntegerConstant 0) False]
     = map Inr [''i = 0'']"
    by (simp add: expr_text_def output_of_def example_i_def example_local_def and_then_def
        emit_def skip_def digits)
  have c: "expr_text example_env
     (LSLBinaryExpression LST_INTEGER OP_LESS example_i (LSLIntegerConstant 3) True)
     = Inr ''rless(3, i)''"
    by (simp add: expr_text_def output_of_def example_i_def example_local_def and_then_def
        emit_def skip_def digits)
  have b: "stmt_text example_env (mTabs \<lparr>mStr = [], mTabs = 0\<rparr> + 1) (LSLCompoundStatement [])
     = Inr ''    pass\<newline>''"
    by (simp add: stmt_text_def output_of_def and_then_def emit_def skip_def doTabs_def)
  have k: "map (expr_text example_env) [LSLUnaryExpression LST_INTEGER OP_PRE_INCR example_i False]
     = map Inr [''i += 1'']"
    by (simp add: expr_text_def output_of_def example_i_def example_local_def and_then_def
        emit_def skip_def digits)
  show ?thesis
    unfolding for_loop_translation [OF i c b k]
    using i c b k by (simp add: clause_lines_def tabs_def eval_nat_numeral)
qed

text \<open>
  C6. A pre/post increment/decrement whose value is not used and whose target is no
  coordinate member is written as \<open>target += one\<close> or \<open>target -= one\<close>, with \<open>1\<close> for an
  integer and \<open>1.0\<close> for a float; every other one is a call of the helper of its operator
  on the container of the variable (\<open>self.__dict__\<close> for a global, \<open>locals()\<close> otherwise),
  the variable's name and, for the coordinate member \<open>x\<close>, \<open>y\<close>, \<open>z\<close> or \<open>s\<close>, the
  offset 0, 1, 2 or 3 of that member.
\<close>

theorem increment_decrement_forms:
  assumes "(op, helper) \<in> set incr_decr_helpers"
  shows "visit_expr env
           (LSLUnaryExpression ty op (LSLLValueExpression lty symb ident None) False) s =
           (case getOneValue lty of
              None \<Rightarrow> Inl Undefined_behaviour
            | Some one \<Rightarrow>
                (case expr_text env one of
                   Inl e \<Rightarrow> Inl e
                 | Inr one_text \<Rightarrow>
                     Inr (s\<lparr>mStr := mStr s @ target_name symb
                            @ (if decrements op then '' -= '' else '' += '') @ one_text\<rparr>))) \<and>
         visit_expr env
           (LSLUnaryExpression ty op (LSLLValueExpression LST_INTEGER symb ident None) False) s =
           Inr (s\<lparr>mStr := mStr s @ target_name symb
                  @ (if decrements op then '' -= '' else '' += '') @ ''1''\<rparr>) \<and>
         visit_expr env
           (LSLUnaryExpression ty op (LSLLValueExpression LST_FLOATINGPOINT symb ident None) False) s =
           Inr (s\<lparr>mStr := mStr s @ target_name symb
                  @ (if decrements op then '' -= '' else '' += '') @ ''1.0''\<rparr>) \<and>
         visit_expr env
           (LSLUnaryExpression ty op (LSLLValueExpression lty symb ident None) True) s =
           Inr (s\<lparr>mStr := mStr s @ helper @ ''('' @ container symb
                  @ '', '' @ [dquote] @ sym_name symb @ [dquote] @ '')''\<rparr>) \<and>
         ((c, k) \<in> set coordinate_offsets \<and> id_name m = c # rest \<longrightarrow>
            visit_expr env
              (LSLUnaryExpression ty op (LSLLValueExpression lty symb ident (Some m)) needed) s =
              Inr (s\<lparr>mStr := mStr s @ helper @ ''('' @ container symb
                     @ '', '' @ [dquote] @ sym_name symb @ [dquote]
                     @ '', '' @ dec_int k @ '')''\<rparr>))"
proof (intro conjI impI)
  show "visit_expr env
           (LSLUnaryExpression ty op (LSLLValueExpression lty symb ident None) False) s =
           (case getOneValue lty of
              None \<Rightarrow> Inl Undefined_behaviour
            | Some one \<Rightarrow>
                (case expr_text env one of
                   Inl e \<Rightarrow> Inl e
                 | Inr one_text \<Rightarrow>
                     Inr (s\<lparr>mStr := mStr s @ target_name symb
                            @ (if decrements op then '' -= '' else '' += '') @ one_text\<rparr>)))"
    by (rule incr_decr_statement [OF assms])
  show "visit_expr env
           (LSLUnaryExpression ty op (LSLLValueExpression LST_INTEGER symb ident None) False) s =
           Inr (s\<lparr>mStr := mStr s @ target_name symb
                  @ (if decrements op then '' -= '' else '' += '') @ ''1''\<rparr>)"
    unfolding incr_decr_statement [OF assms]
    by (simp add: integer_text dec_int_digit digit_chars_def)
  show "visit_expr env
           (LSLUnaryExpression ty op (LSLLValueExpression LST_FLOATINGPOINT symb ident None) False) s =
           Inr (s\<lparr>mStr := mStr s @ target_name symb
                  @ (if decrements op then '' -= '' else '' += '') @ ''1.0''\<rparr>)"
    unfolding incr_decr_statement [OF assms]
    by (simp add: one_float_text)
  have t: "True \<or> (None :: lsl_identifier option) \<noteq> None"
    by simp
  show "visit_expr env
           (LSLUnaryExpression ty op (LSLLValueExpression lty symb ident None) True) s =
           Inr (s\<lparr>mStr := mStr s @ helper @ ''('' @ container symb
                  @ '', '' @ [dquote] @ sym_name symb @ [dquote] @ '')''\<rparr>)"
    unfolding incr_decr_helper_call [OF assms t] by simp
next
  assume a: "(c, k) \<in> set coordinate_offsets \<and> id_name m = c # rest"
  then have off: "member_to_offset env (id_name m) = Inr k"
    using coordinate_offset [of c k env rest] by simp
  have t: "needed \<or> Some m \<noteq> None"
    by simp
  show "visit_expr env
          (LSLUnaryExpression ty op (LSLLValueExpression lty symb ident (Some m)) needed) s =
          Inr (s\<lparr>mStr := mStr s @ helper @ ''('' @ container symb
                 @ '', '' @ [dquote] @ sym_name symb @ [dquote]
                 @ '', '' @ dec_int k @ '')''\<rparr>)"
    unfolding incr_decr_helper_call [OF assms t] by (simp add: off)
qed

theorem increment_decrement_forms_witness:
  "(OP_PRE_INCR, ''preincr'') \<in> set incr_decr_helpers \<and>
   (OP_POST_DECR, ''postdecr'') \<in> set incr_decr_helpers \<and>
   (CHR ''z'', 2) \<in> set coordinate_offsets \<and>
   visit_expr example_env (LSLUnaryExpression LST_INTEGER OP_PRE_INCR example_i False)
     \<lparr>mStr = [], mTabs = 0\<rparr> = Inr \<lparr>mStr = ''i += 1'', mTabs = 0\<rparr> \<and>
   visit_expr example_env (LSLUnaryExpression LST_INTEGER OP_PRE_INCR example_i True)
     \<lparr>mStr = [], mTabs = 0\<rparr> =
     Inr \<lparr>mStr = ''preincr(locals(), '' @ [dquote] @ ''i'' @ [dquote] @ '')'', mTabs = 0\<rparr> \<and>
   visit_expr example_env (LSLUnaryExpression LST_FLOATINGPOINT OP_POST_DECR example_v_z False)
     \<lparr>mStr = [], mTabs = 0\<rparr> =
     Inr \<lparr>mStr = ''postdecr(self.__dict__, '' @ [dquote] @ ''v'' @ [dquote] @ '', 2)'', mTabs = 0\<rparr>"
proof -
  have h: "(OP_PRE_INCR, ''preincr'') \<in> set incr_decr_helpers"
    by (simp add: incr_decr_helpers_def)
  have g: "(OP_POST_DECR, ''postdecr'') \<in> set incr_decr_helpers"
    by (simp add: incr_decr_helpers_def)
  have z: "(CHR ''z'', 2) \<in> set coordinate_offsets \<and>
           id_name \<lparr>id_name = ''z'', id_itype = LST_FLOATINGPOINT\<rparr> = CHR ''z'' # []"
    by (simp add: coordinate_offsets_def)
  note statement = increment_decrement_forms [OF h, THEN conjunct2, THEN conjunct1]
  note call = increment_decrement_forms [OF h, THEN conjunct2, THEN conjunct2, THEN conjunct2,
      THEN conjunct1]
  note member = increment_decrement_forms [OF g, THEN conjunct2, THEN conjunct2, THEN conjunct2,
      THEN conjunct2, rule_format, OF z]
  have a: "visit_expr example_env (LSLUnaryExpression LST_INTEGER OP_PRE_INCR example_i False)
     \<lparr>mStr = [], mTabs = 0\<rparr> = Inr \<lparr>mStr = ''i += 1'', mTabs = 0\<rparr>"
    unfolding example_i_def statement
    by (simp add: target_name_def decrements_def example_local_def)
  have b: "visit_expr example_env (LSLUnaryExpression LST_INTEGER OP_PRE_INCR example_i True)
     \<lparr>mStr = [], mTabs = 0\<rparr> =
     Inr \<lparr>mStr = ''preincr(locals(), '' @ [dquote] @ ''i'' @ [dquote] @ '')'', mTabs = 0\<rparr>"
    unfolding example_i_def call
    by (simp add: container_def example_local_def)
  have c: "visit_expr example_env (LSLUnaryExpression LST_FLOATINGPOINT OP_POST_DECR example_v_z False)
     \<lparr>mStr = [], mTabs = 0\<rparr> =
     Inr \<lparr>mStr = ''postdecr(self.__dict__, '' @ [dquote] @ ''v'' @ [dquote] @ '', 2)'', mTabs = 0\<rparr>"
    unfolding example_v_z_def member
    by (simp add: container_def example_global_def dec_int_digit digit_chars_def)
  show ?thesis
    using h g z a b c by simp
qed

text \<open>
  C7, as the code has it. The method of an event handler is named by the letter \<open>e\<close>
  followed by the name of the owning state and the name of the event; it is preceded by
  the \<open>@with_goto\<close> decorator, and its body is written one level deeper.
\<close>

theorem event_handler_method:
  "visit_event_handler env state_sym event_handler s =
     (case stmt_text env (mTabs s + 1) (eh_statements event_handler) of
        Inl e \<Rightarrow> Inl e
      | Inr body \<Rightarrow>
          Inr (s\<lparr>mStr := mStr s @
                 method_text (mTabs s)
                   (''e'' @ sym_name state_sym @ id_name (eh_identifier event_handler))
                   event_handler body\<rparr>))"
proof -
  have "output_of (visit_event_handler env state_sym event_handler) (mTabs s) =
          cat (Inr (tabs (mTabs s) @ ''@with_goto\<newline>''
                 @ tabs (mTabs s) @ ''def ''
                 @ (''e'' @ sym_name state_sym @ id_name (eh_identifier event_handler))
                 @ ''(self'' @ arguments_text (eh_arguments event_handler)
                 @ '') -> '' @ PY_TYPE_NAMES (id_itype (eh_identifier event_handler)) @ '':\<newline>''))
              (cat (stmt_text env (mTabs s + 1) (eh_statements event_handler)) (Inr ''\<newline>''))"
    by (simp add: visit_event_handler_def Let_def appends_simps output_of_write_arguments
        cat_assoc [symmetric])
  then show ?thesis
    using appendsD [OF visit_event_handler_appends, of env state_sym event_handler s]
    by (cases "stmt_text env (mTabs s + 1) (eh_statements event_handler)")
       (simp_all add: method_text_def)
qed

theorem event_handler_method_witness:
  "visit_event_handler example_env example_state example_handler \<lparr>mStr = [], mTabs = 1\<rparr> =
     Inr \<lparr>mStr = ''    @with_goto\<newline>    def edefaultstate_entry(self) -> None:\<newline>        pass\<newline>\<newline>'',
          mTabs = 1\<rparr>"
proof -
  have b: "stmt_text example_env (mTabs \<lparr>mStr = [], mTabs = 1\<rparr> + 1)
             (eh_statements example_handler) = Inr ''        pass\<newline>''"
    by (simp add: stmt_text_def output_of_def example_handler_def and_then_def emit_def skip_def
        doTabs_def eval_nat_numeral)
  show ?thesis
    unfolding event_handler_method b
    by (simp add: method_text_def example_handler_def example_state_def arguments_text_def tabs_def)
qed

text \<open>
  C7, as stated: the method name is the state's name followed by the event's name.
  For the handler \<open>state_entry\<close> of the state \<open>default\<close> the method written is not
  \<open>defaultstate_entry\<close>.
\<close>

theorem event_handler_name_counterexample:
  "visit_event_handler example_env example_state example_handler \<lparr>mStr = [], mTabs = 1\<rparr> =
     Inr \<lparr>mStr = ''    @with_goto\<newline>    def edefaultstate_entry(self) -> None:\<newline>        pass\<newline>\<newline>'',
          mTabs = 1\<rparr> \<and>
   method_text 1 (sym_name example_state @ id_name (eh_identifier example_handler))
     example_handler ''        pass\<newline>'' =
     ''    @with_goto\<newline>    def defaultstate_entry(self) -> None:\<newline>        pass\<newline>\<newline>'' \<and>
   visit_event_handler example_env example_state example_handler \<lparr>mStr = [], mTabs = 1\<rparr> \<noteq>
     Inr \<lparr>mStr = method_text 1
                  (sym_name example_state @ id_name (eh_identifier example_handler))
                  example_handler ''        pass\<newline>'',
          mTabs = 1\<rparr>"
proof -
  have "visit_event_handler example_env example_state example_handler \<lparr>mStr = [], mTabs = 1\<rparr> =
     Inr \<lparr>mStr = ''    @with_goto\<newline>    def edefaultstate_entry(self) -> None:\<newline>        pass\<newline>\<newline>'',
          mTabs = 1\<rparr>"
    by (simp add: visit_event_handler_def Let_def example_handler_def example_state_def
        write_arguments_def for_each_def and_then_def emit_def skip_def doTabs_def indented_def
        ScopedTabSetter_def eval_nat_numeral)
  then show ?thesis
    by (simp add: method_text_def example_handler_def example_state_def arguments_text_def tabs_def)
qed

text \<open>
  C8, as the code has it. On a binary operator, a unary operator or a member name
  outside the closed sets, a build with assertions fails the assertion; a build without
  them writes \<open><ERROR>\<close> in place of the helper (offset 0 for a member name) and goes on.
  A tree whose operators and member names are within the closed sets never fails an
  assertion.
\<close>

theorem unknown_case_faults:
  "(op \<noteq> OpChar CHR ''='' \<and> op \<noteq> OP_MUL_ASSIGN \<and> op \<notin> fst ` set non_assignment_operators \<longrightarrow>
      visit_expr env (LSLBinaryExpression ty op lhs rhs needed) s =
        (if NDEBUG env then
           append_result s
             (cat (Inr ''<ERROR>'')
                (cat (expr_text env rhs) (cat (Inr '', '') (cat (expr_text env lhs) (Inr '')'')))))
         else Inl Assertion_failed)) \<and>
   (uop \<notin> fst ` set incr_decr_helpers \<and> uop \<notin> fst ` set unary_operators \<longrightarrow>
      visit_expr env (LSLUnaryExpression ty uop child needed) s =
        (if NDEBUG env then
           append_result s (cat (Inr ''<ERROR>'') (cat (expr_text env child) (Inr '')'')))
         else Inl Assertion_failed)) \<and>
   (\<not> member_known name \<longrightarrow>
      member_to_offset env name = (if NDEBUG env then Inr 0 else Inl Assertion_failed)) \<and>
   (operators_known e \<longrightarrow> visit_expr env e s \<noteq> Inl Assertion_failed)"
  using unknown_binary [of op env ty lhs rhs needed s] unknown_unary [of uop env ty child needed s]
    unknown_member [of name env] known_never_asserts [of e env s]
  by blast

theorem unknown_case_faults_witness:
  "OP_OTHER 0 \<notin> fst ` set non_assignment_operators \<and>
   OP_OTHER 0 \<notin> fst ` set incr_decr_helpers \<and> OP_OTHER 0 \<notin> fst ` set unary_operators \<and>
   \<not> member_known ''w'' \<and> \<not> NDEBUG example_env \<and>
   visit_expr example_env
     (LSLBinaryExpression LST_INTEGER (OP_OTHER 0) example_i (LSLIntegerConstant 3) True)
     \<lparr>mStr = [], mTabs = 0\<rparr> = Inl Assertion_failed \<and>
   visit_expr example_env (LSLUnaryExpression LST_INTEGER (OP_OTHER 0) example_i True)
     \<lparr>mStr = [], mTabs = 0\<rparr> = Inl Assertion_failed \<and>
   member_to_offset example_env ''w'' = Inl Assertion_failed \<and>
   operators_known (LSLBinaryExpression LST_INTEGER OP_LESS example_i (LSLIntegerConstant 3) True) \<and>
   visit_expr example_env
     (LSLBinaryExpression LST_INTEGER OP_LESS example_i (LSLIntegerConstant 3) True)
     \<lparr>mStr = [], mTabs = 0\<rparr> \<noteq> Inl Assertion_failed"
proof -
  have b: "OP_OTHER 0 \<noteq> OpChar CHR ''='' \<and> OP_OTHER 0 \<noteq> OP_MUL_ASSIGN
             \<and> OP_OTHER 0 \<notin> fst ` set non_assignment_operators"
    by (simp add: non_assignment_operators_def)
  have u: "OP_OTHER 0 \<notin> fst ` set incr_decr_helpers \<and> OP_OTHER 0 \<notin> fst ` set unary_operators"
    by (simp add: incr_decr_helpers_def unary_operators_def)
  have m: "\<not> member_known ''w''"
    by (simp add: member_known_def)
  have k: "operators_known
             (LSLBinaryExpression LST_INTEGER OP_LESS example_i (LSLIntegerConstant 3) True)"
    by (simp add: example_i_def non_assignment_operators_def)
  have nd: "\<not> NDEBUG example_env"
    by (simp add: example_env_def)
  show ?thesis
    using b u m k nd
      unknown_case_faults [of "OP_OTHER 0" example_env LST_INTEGER example_i "LSLIntegerConstant 3"
        True "\<lparr>mStr = [], mTabs = 0\<rparr>" "OP_OTHER 0" example_i "''w''"
        "LSLBinaryExpression LST_INTEGER OP_LESS example_i (LSLIntegerConstant 3) True"]
    by (simp only: simp_thms if_False)
qed

text \<open>
  C8, as stated: the generator aborts on an operator outside the closed set. In a build
  without assertions the visit of such a binary expression returns with text written.
\<close>

theorem unknown_operator_counterexample:
  "visit_expr release_env
     (LSLBinaryExpression LST_INTEGER (OP_OTHER 0) example_i (LSLIntegerConstant 3) True)
     \<lparr>mStr = [], mTabs = 0\<rparr> = Inr \<lparr>mStr = ''<ERROR>3, i)'', mTabs = 0\<rparr>"
  by (simp add: release_env_def example_env_def example_i_def example_local_def and_then_def
      emit_def skip_def assert0_def dec_int_digit digit_chars_def)

text \<open>
  C9, as the code has it. Whenever \<open>main\<close> returns, the exit status is the low eight
  bits of the front end's error count, or it is 1 and a message went to the standard error
  stream. Exit status 0 means that the program was generated and no error was counted, or
  that nothing was generated and the error count is a non-zero multiple of 256; for a
  count below 256 the exit status is the count itself (or 1 with a message) and 0 means
  that the program was generated. A wrong argument count, an input that does not open and
  an output that does not open each give exit status 1 and their own message. A run that
  generated the program and sent it to the standard output, or wrote it to the opened
  output, gives exit status 0 and no message.
\<close>

theorem main_exit_status:
  assumes "main env w argv = Inr out"
  shows "(exit_status out = getErrors w mod 256 \<or> exit_status out = 1 \<and> stderr out \<noteq> []) \<and>
         (exit_status out = 0 \<longrightarrow>
            generated out \<and> getErrors w = 0 \<or>
            \<not> generated out \<and> getErrors w \<noteq> 0 \<and> getErrors w mod 256 = 0) \<and>
         (0 \<le> getErrors w \<and> getErrors w < 256 \<longrightarrow>
            (exit_status out = getErrors w \<or> exit_status out = 1 \<and> stderr out \<noteq> []) \<and>
            (exit_status out = 0 \<longrightarrow> generated out \<and> getErrors w = 0)) \<and>
         (length argv \<noteq> 3 \<longrightarrow>
            exit_status out = 1 \<and> stderr out = [''lummao <lsl_script> <out_py>\<newline>'']) \<and>
         (length argv = 3 \<and> argv ! 1 \<noteq> ''-'' \<and> \<not> input_opens w \<longrightarrow>
            exit_status out = 1 \<and>
            stderr out = [''couldn'' @ [squote] @ ''t open '' @ argv ! 1 @ ''\<newline>'']) \<and>
         (generated out \<and> argv ! 2 \<noteq> ''-'' \<and> \<not> output_good w \<longrightarrow>
            exit_status out = 1 \<and>
            stderr out = [''Couldn'' @ [squote] @ ''t open '' @ [squote] @ argv ! 2 @ [squote] @ ''\<newline>'']) \<and>
         (generated out \<and> (argv ! 2 = ''-'' \<or> output_good w \<and> write_succeeds w) \<longrightarrow>
            exit_status out = 0 \<and> stderr out = [] \<and> getErrors w = 0) \<and>
         (\<not> generated out \<and> stderr out = [] \<longrightarrow>
            exit_status out = getErrors w mod 256 \<and> getErrors w \<noteq> 0)"
  using assms
  by (auto simp add: main_def exit_status_def Let_def split: if_splits option.splits sum.splits)

theorem main_exit_status_witness:
  "main example_env example_world example_argv =
     Inr \<lparr>returned = 0, stderr = [], stdout = [], generated = True, written = Some example_code\<rparr> \<and>
   exit_status
     \<lparr>returned = 0, stderr = [], stdout = [], generated = True, written = Some example_code\<rparr> = 0 \<and>
   getErrors example_world = 0"
proof -
  have m: "main example_env example_world example_argv =
     Inr \<lparr>returned = 0, stderr = [], stdout = [], generated = True, written = Some example_code\<rparr>"
    using example_main [of True] by (simp add: example_world_def)
  have e: "exit_status
     \<lparr>returned = 0, stderr = [], stdout = [], generated = True, written = Some example_code\<rparr> = 0"
    by (simp add: exit_status_def)
  have "getErrors example_world = 0"
    using main_exit_status [OF m, THEN conjunct2, THEN conjunct1] e by simp
  then show ?thesis
    using m e by simp
qed

text \<open>
  C9, as stated: the exit status is the error count, zero means that generation ran, and
  the status of an output failure can be told from an error count. With 256 front-end
  errors the exit status is 0 and nothing is generated; an output that does not open
  gives the same exit status as one front-end error.
\<close>

theorem exit_status_counterexample:
  "getErrors (example_world\<lparr>errors_analysed := 256\<rparr>) = 256 \<and>
   map_sum id exit_status (main example_env (example_world\<lparr>errors_analysed := 256\<rparr>) example_argv)
     = Inr 0 \<and>
   map_sum id generated (main example_env (example_world\<lparr>errors_analysed := 256\<rparr>) example_argv)
     = Inr False \<and>
   map_sum id exit_status (main example_env (example_world\<lparr>output_good := False\<rparr>) example_argv)
     = Inr 1 \<and>
   map_sum id exit_status (main example_env (example_world\<lparr>errors_analysed := 1\<rparr>) example_argv)
     = Inr 1"
proof -
  have "main example_env (example_world\<lparr>errors_analysed := 256\<rparr>) example_argv =
     Inr \<lparr>returned = 256, stderr = [], stdout = [], generated = False, written = None\<rparr>"
    by (simp add: main_def getErrors_def example_world_def example_argv_def)
  moreover have "main example_env (example_world\<lparr>output_good := False\<rparr>) example_argv =
     Inr \<lparr>returned = 1,
          stderr = [''Couldn'' @ [squote] @ ''t open '' @ [squote] @ ''out.py'' @ [squote] @ ''\<newline>''],
          stdout = [], generated = True, written = None\<rparr>"
    by (simp add: main_def getErrors_def example_world_def example_argv_def example_script_code
        eval_nat_numeral)
  moreover have "main example_env (example_world\<lparr>errors_analysed := 1\<rparr>) example_argv =
     Inr \<lparr>returned = 1, stderr = [], stdout = [], generated = False, written = None\<rparr>"
    by (simp add: main_def getErrors_def example_world_def example_argv_def)
  ultimately show ?thesis
    by (simp add: exit_status_def getErrors_def example_world_def)
qed



end
